theory Spec2Isabelle
  imports Complex_Main
begin

section \<open>Numbers and conversions\<close>

text \<open>
  \<^verbatim>\<open>Real\<close> is OGRE's single-precision \<^verbatim>\<open>float\<close>, IEEE binary32. Its values are kept as
  numbers of the type \<open>real\<close>. The sum \<^verbatim>\<open>scaledPosition + 0.5\<close> that the nearest-neighbour
  branches convert to an index is rounded to the nearest \<^verbatim>\<open>float\<close> (\<open>Real_round\<close> below),
  since the rounding decides which sample is read; the arithmetic of the interpolating
  branches and of the geometry is exact. \<^verbatim>\<open>int\<close> is 32 bits wide and \<^verbatim>\<open>size_t\<close> 64 bits
  wide; their values are kept as \<open>int\<close> and \<open>nat\<close>. The loops of this file count upwards to
  a bound that is itself an \<^verbatim>\<open>int\<close>, so no integer arithmetic overflows.
\<close>


definition INT_MIN :: int where
  "INT_MIN = - (2 ^ 31)"

definition INT_MAX :: int where
  "INT_MAX = 2 ^ 31 - 1"

definition SIZE_MAX :: nat where
  "SIZE_MAX = 2 ^ 64 - 1"

definition trunc :: "real \<Rightarrow> int" where
  \<comment> \<open>the fractional part is discarded (rounding toward zero)\<close>
  "trunc r = (if 0 \<le> r then \<lfloor>r\<rfloor> else \<lceil>r\<rceil>)"

text \<open>
  A floating-point value whose truncation does not fit the destination type has no
  defined conversion in C++. The value such a conversion yields is a parameter of the
  model, so that every result below holds whatever the platform produces there.
\<close>

record conversions =
  int_unrepresentable :: "real \<Rightarrow> int"
  size_t_unrepresentable :: "real \<Rightarrow> nat"

definition to_int :: "conversions \<Rightarrow> real \<Rightarrow> int" where
  \<comment> \<open>\<^verbatim>\<open>(int)r\<close>\<close>
  "to_int cv r =
     (if INT_MIN \<le> trunc r \<and> trunc r \<le> INT_MAX then trunc r
      else int_unrepresentable cv r)"

definition to_size_t :: "conversions \<Rightarrow> real \<Rightarrow> nat" where
  \<comment> \<open>\<^verbatim>\<open>(size_t)r\<close>\<close>
  "to_size_t cv r =
     (if 0 \<le> trunc r \<and> trunc r \<le> int SIZE_MAX then nat (trunc r)
      else size_t_unrepresentable cv r)"

definition ceil :: "real \<Rightarrow> real" where
  "ceil r = of_int \<lceil>r\<rceil>"

text \<open>
  Rounding to the nearest \<^verbatim>\<open>float\<close>, ties to the even significand: a number of binary
  exponent \<open>e\<close> is rounded to a multiple of \<open>2 ^ (e - 23)\<close> (24 significant bits); below
  \<open>2 ^ (-126)\<close> the spacing stays that of the smallest normal numbers. Overflow to infinity
  (beyond \<open>2 ^ 128\<close>) is not modelled.
\<close>

definition round_half_even :: "real \<Rightarrow> int" where
  "round_half_even q =
     (let f = \<lfloor>q\<rfloor>; d = q - of_int f
      in if d < 1 / 2 then f else if 1 / 2 < d then f + 1 else if even f then f else f + 1)"

definition Real_exponent :: "real \<Rightarrow> int" where
  "Real_exponent r = max \<lfloor>log 2 \<bar>r\<bar>\<rfloor> (- 126)"

definition Real_ulp :: "real \<Rightarrow> real" where
  "Real_ulp r = 2 powi (Real_exponent r - 23)"

definition Real_round :: "real \<Rightarrow> real" where
  "Real_round r = (if r = 0 then 0 else of_int (round_half_even (r / Real_ulp r)) * Real_ulp r)"


definition Clamp :: "int \<Rightarrow> int \<Rightarrow> int \<Rightarrow> int" where
  \<comment> \<open>Modelled from the spec: \<^verbatim>\<open>Math::Clamp\<close> is declared outside this file; it clamps
      \<open>val\<close> into \<open>[minval, maxval]\<close>.\<close>
  "Clamp val minval maxval = max (min val maxval) minval"

section \<open>Vectors, rays and boxes\<close>

record Vector3 =
  vx :: real
  vy :: real
  vz :: real

record Vector4 =
  v4x :: real
  v4y :: real
  v4z :: real
  v4w :: real

definition Vector3_add :: "Vector3 \<Rightarrow> Vector3 \<Rightarrow> Vector3" where
  \<comment> \<open>\<^verbatim>\<open>a + b\<close>\<close>
  "Vector3_add a b = \<lparr>vx = vx a + vx b, vy = vy a + vy b, vz = vz a + vz b\<rparr>"

definition Vector3_sub :: "Vector3 \<Rightarrow> Vector3 \<Rightarrow> Vector3" where
  \<comment> \<open>\<^verbatim>\<open>a - b\<close>\<close>
  "Vector3_sub a b = \<lparr>vx = vx a - vx b, vy = vy a - vy b, vz = vz a - vz b\<rparr>"

definition Vector3_mul :: "Vector3 \<Rightarrow> real \<Rightarrow> Vector3" where
  \<comment> \<open>\<^verbatim>\<open>v * s\<close>\<close>
  "Vector3_mul v s = \<lparr>vx = vx v * s, vy = vy v * s, vz = vz v * s\<rparr>"

definition Real_mul_Vector3 :: "real \<Rightarrow> Vector3 \<Rightarrow> Vector3" where
  \<comment> \<open>\<^verbatim>\<open>s * v\<close>\<close>
  "Real_mul_Vector3 s v = \<lparr>vx = s * vx v, vy = s * vy v, vz = s * vz v\<rparr>"

definition Vector3_length :: "Vector3 \<Rightarrow> real" where
  "Vector3_length v = sqrt (vx v * vx v + vy v * vy v + vz v * vz v)"

definition normalisedCopy :: "Vector3 \<Rightarrow> Vector3" where
  \<comment> \<open>Modelled from the spec: vector normalization belongs to the external math library;
      a vector of length zero is returned as it is.\<close>
  "normalisedCopy v =
     (if 0 < Vector3_length v then Vector3_mul v (1 / Vector3_length v) else v)"

record Ray =
  mOrigin :: Vector3
  mDirection :: Vector3

record AxisAlignedBox =
  mMinimum :: Vector3
  mMaximum :: Vector3

definition AxisAlignedBox_make ::
  "real \<Rightarrow> real \<Rightarrow> real \<Rightarrow> real \<Rightarrow> real \<Rightarrow> real \<Rightarrow> AxisAlignedBox" where
  \<comment> \<open>\<^verbatim>\<open>AxisAlignedBox(mx, my, mz, Mx, My, Mz)\<close>\<close>
  "AxisAlignedBox_make mx my mz Mx My Mz =
     \<lparr>mMinimum = \<lparr>vx = mx, vy = my, vz = mz\<rparr>, mMaximum = \<lparr>vx = Mx, vy = My, vz = Mz\<rparr>\<rparr>"

definition getSize :: "AxisAlignedBox \<Rightarrow> Vector3" where
  "getSize box = Vector3_sub (mMaximum box) (mMinimum box)"

definition AxisAlignedBox_intersects :: "AxisAlignedBox \<Rightarrow> Vector3 \<Rightarrow> bool" where
  \<comment> \<open>Modelled from the spec: \<^verbatim>\<open>box.intersects(point)\<close> is part of the external math
      library; the point lies inside the closed box.\<close>
  "AxisAlignedBox_intersects box v \<longleftrightarrow>
     vx (mMinimum box) \<le> vx v \<and> vx v \<le> vx (mMaximum box) \<and>
     vy (mMinimum box) \<le> vy v \<and> vy v \<le> vy (mMaximum box) \<and>
     vz (mMinimum box) \<le> vz v \<and> vz v \<le> vz (mMaximum box)"

definition getPoint :: "Ray \<Rightarrow> real \<Rightarrow> Vector3" where
  "getPoint ray t = Vector3_add (mOrigin ray) (Vector3_mul (mDirection ray) t)"

definition face_distances :: "Ray \<Rightarrow> AxisAlignedBox \<Rightarrow> real list" where
  \<comment> \<open>the ray parameters at which the ray's line crosses the planes of the six faces\<close>
  "face_distances ray box =
     (if vx (mDirection ray) = 0 then []
      else [(vx (mMinimum box) - vx (mOrigin ray)) / vx (mDirection ray),
            (vx (mMaximum box) - vx (mOrigin ray)) / vx (mDirection ray)]) @
     (if vy (mDirection ray) = 0 then []
      else [(vy (mMinimum box) - vy (mOrigin ray)) / vy (mDirection ray),
            (vy (mMaximum box) - vy (mOrigin ray)) / vy (mDirection ray)]) @
     (if vz (mDirection ray) = 0 then []
      else [(vz (mMinimum box) - vz (mOrigin ray)) / vz (mDirection ray),
            (vz (mMaximum box) - vz (mOrigin ray)) / vz (mDirection ray)])"

definition Ray_intersects :: "Ray \<Rightarrow> AxisAlignedBox \<Rightarrow> bool \<times> real" where
  \<comment> \<open>Modelled from the spec: the ray-box intersection test \<^verbatim>\<open>ray.intersects(box)\<close> is part
      of the external math library and returns (hit, distance). The ray meets the box
      first either at its origin or where it crosses the plane of a face, so the test
      looks for the nearest such point that lies in the box. The distance is the ray
      parameter of that point, in units of the length of the direction.\<close>
  "Ray_intersects ray box =
     (case filter (\<lambda>t. 0 \<le> t \<and> AxisAlignedBox_intersects box (getPoint ray t))
             (0 # face_distances ray box) of
        [] \<Rightarrow> (False, 0)
      | t # ts \<Rightarrow> (True, fold min ts t))"

section \<open>The grid source\<close>

text \<open>
  The fields of \<^verbatim>\<open>GridSource\<close>. The lattice samples live in a subclass; \<open>lattice\<close> stands
  for what the subclass stores. The dimensions are \<^verbatim>\<open>int\<close>s: they are passed to
  \<^verbatim>\<open>Math::Clamp\<close> together with \<^verbatim>\<open>int\<close> arguments.
\<close>

record 's GridSource =
  mWidth :: int
  mHeight :: int
  mDepth :: int
  mPosXScale :: real
  mPosYScale :: real
  mPosZScale :: real
  mVolumeSpaceToWorldSpaceFactor :: real
  mTrilinearValue :: bool
  mTrilinearGradient :: bool
  mSobelGradient :: bool
  lattice :: 's

text \<open>
  The three accessors that the subclass implements. They are not part of this file and are
  parameters of the model: reading a sample, the gradient at a lattice point (which may
  consult the Sobel setting) and writing a sample.
\<close>

record 's accessors =
  getVolumeGridValue :: "'s \<Rightarrow> nat \<Rightarrow> nat \<Rightarrow> nat \<Rightarrow> real"
  getGradient :: "'s \<Rightarrow> bool \<Rightarrow> nat \<Rightarrow> nat \<Rightarrow> nat \<Rightarrow> Vector3"
  setVolumeGridValue :: "'s \<Rightarrow> int \<Rightarrow> int \<Rightarrow> int \<Rightarrow> real \<Rightarrow> 's"

definition gridBox :: "'s GridSource \<Rightarrow> AxisAlignedBox" where
  \<comment> \<open>\<^verbatim>\<open>AxisAlignedBox box(0, 0, 0, (Real)mWidth, (Real)mHeight, (Real)mDepth)\<close>\<close>
  "gridBox g =
     AxisAlignedBox_make 0 0 0 (of_int (mWidth g)) (of_int (mHeight g)) (of_int (mDepth g))"

subsection \<open>Bounds and intersection\<close>

text \<open>
  The ray-box test is taken as a parameter \<open>intersects\<close>; \<^const>\<open>Ray_intersects\<close> is one
  such test.
\<close>

definition getIntersectionStart ::
  "(Ray \<Rightarrow> AxisAlignedBox \<Rightarrow> bool \<times> real) \<Rightarrow> 's GridSource \<Rightarrow> Ray \<Rightarrow> real \<Rightarrow> Vector3" where
  "getIntersectionStart intersects g ray maxDistance =
     (let box = gridBox g in
      if AxisAlignedBox_intersects box (mOrigin ray) then mOrigin ray
      else
        let intersection = intersects ray box in
        if fst intersection then
          (let direction = normalisedCopy (mDirection ray)
           in Vector3_add (mOrigin ray) (Vector3_mul direction (snd intersection)))
        else mOrigin ray)"

definition getIntersectionEnd ::
  "(Ray \<Rightarrow> AxisAlignedBox \<Rightarrow> bool \<times> real) \<Rightarrow> 's GridSource \<Rightarrow> Ray \<Rightarrow> real \<Rightarrow> Vector3" where
  "getIntersectionEnd intersects g ray maxDistance =
     (let box = gridBox g;
          direction = normalisedCopy (mDirection ray);
          invertedDirection = Real_mul_Vector3 (- 1) direction;
          origin = Vector3_add (mOrigin ray)
                     (Vector3_mul direction (Vector3_length (getSize box)));
          inverted = \<lparr>mOrigin = origin, mDirection = invertedDirection\<rparr>;
          intersection = intersects inverted box
      in if fst intersection then
           Vector3_add origin (Vector3_mul invertedDirection (snd intersection))
         else Vector3_add (mOrigin ray) (Vector3_mul direction maxDistance))"

subsection \<open>Field evaluation\<close>

definition scaledPosition :: "'s GridSource \<Rightarrow> Vector3 \<Rightarrow> Vector3" where
  \<comment> \<open>\<^verbatim>\<open>Vector3 scaledPosition(position.x * mPosXScale, ...)\<close>\<close>
  "scaledPosition g position =
     \<lparr>vx = vx position * mPosXScale g,
      vy = vy position * mPosYScale g,
      vz = vz position * mPosZScale g\<rparr>"

definition getValue ::
  "conversions \<Rightarrow> 's accessors \<Rightarrow> 's GridSource \<Rightarrow> Vector3 \<Rightarrow> real" where
  "getValue cv acc g position =
     (let sp = scaledPosition g position in
      if mTrilinearValue g then
        (let x0 = to_size_t cv (vx sp);
             x1 = to_size_t cv (ceil (vx sp));
             y0 = to_size_t cv (vy sp);
             y1 = to_size_t cv (ceil (vy sp));
             z0 = to_size_t cv (vz sp);
             z1 = to_size_t cv (ceil (vz sp));
             dX = vx sp - real x0;
             dY = vy sp - real y0;
             dZ = vz sp - real z0;
             f000 = getVolumeGridValue acc (lattice g) x0 y0 z0;
             f100 = getVolumeGridValue acc (lattice g) x1 y0 z0;
             f010 = getVolumeGridValue acc (lattice g) x0 y1 z0;
             f001 = getVolumeGridValue acc (lattice g) x0 y0 z1;
             f101 = getVolumeGridValue acc (lattice g) x1 y0 z1;
             f011 = getVolumeGridValue acc (lattice g) x0 y1 z1;
             f110 = getVolumeGridValue acc (lattice g) x1 y1 z0;
             f111 = getVolumeGridValue acc (lattice g) x1 y1 z1;
             oneMinX = 1 - dX;
             oneMinY = 1 - dY;
             oneMinZ = 1 - dZ;
             oneMinXoneMinY = oneMinX * oneMinY;
             dXOneMinY = dX * oneMinY
         in oneMinZ * (f000 * oneMinXoneMinY
              + f100 * dXOneMinY
              + f010 * oneMinX * dY)
              + dZ * (f001 * oneMinXoneMinY
              + f101 * dXOneMinY
              + f011 * oneMinX * dY)
              + dX * dY * (f110 * oneMinZ
              + f111 * dZ))
      else
        (let x = to_size_t cv (Real_round (vx sp + 0.5));
             y = to_size_t cv (Real_round (vy sp + 0.5));
             z = to_size_t cv (Real_round (vz sp + 0.5))
         in getVolumeGridValue acc (lattice g) x y z))"

definition getValueAndGradient ::
  "conversions \<Rightarrow> 's accessors \<Rightarrow> 's GridSource \<Rightarrow> Vector3 \<Rightarrow> Vector4" where
  "getValueAndGradient cv acc g position =
     (let sp = scaledPosition g position;
          normal =
            (if mTrilinearGradient g then
               (let x0 = to_size_t cv (vx sp);
                    x1 = to_size_t cv (ceil (vx sp));
                    y0 = to_size_t cv (vy sp);
                    y1 = to_size_t cv (ceil (vy sp));
                    z0 = to_size_t cv (vz sp);
                    z1 = to_size_t cv (ceil (vz sp));
                    dX = vx sp - real x0;
                    dY = vy sp - real y0;
                    dZ = vz sp - real z0;
                    f000 = getGradient acc (lattice g) (mSobelGradient g) x0 y0 z0;
                    f100 = getGradient acc (lattice g) (mSobelGradient g) x1 y0 z0;
                    f010 = getGradient acc (lattice g) (mSobelGradient g) x0 y1 z0;
                    f001 = getGradient acc (lattice g) (mSobelGradient g) x0 y0 z1;
                    f101 = getGradient acc (lattice g) (mSobelGradient g) x1 y0 z1;
                    f011 = getGradient acc (lattice g) (mSobelGradient g) x0 y1 z1;
                    f110 = getGradient acc (lattice g) (mSobelGradient g) x1 y1 z0;
                    f111 = getGradient acc (lattice g) (mSobelGradient g) x1 y1 z1;
                    oneMinX = 1 - dX;
                    oneMinY = 1 - dY;
                    oneMinZ = 1 - dZ;
                    oneMinXoneMinY = oneMinX * oneMinY;
                    dXOneMinY = dX * oneMinY;
                    normal =
                      Vector3_add
                        (Vector3_add
                          (Real_mul_Vector3 oneMinZ
                            (Vector3_add
                              (Vector3_add (Vector3_mul f000 oneMinXoneMinY)
                                 (Vector3_mul f100 dXOneMinY))
                              (Vector3_mul (Vector3_mul f010 oneMinX) dY)))
                          (Real_mul_Vector3 dZ
                            (Vector3_add
                              (Vector3_add (Vector3_mul f001 oneMinXoneMinY)
                                 (Vector3_mul f101 dXOneMinY))
                              (Vector3_mul (Vector3_mul f011 oneMinX) dY))))
                        (Real_mul_Vector3 (dX * dY)
                          (Vector3_add (Vector3_mul f110 oneMinZ) (Vector3_mul f111 dZ)))
                in Vector3_mul normal (- 1))
             else
               (let normal =
                      getGradient acc (lattice g) (mSobelGradient g)
                        (to_size_t cv (Real_round (vx sp + 0.5)))
                        (to_size_t cv (Real_round (vy sp + 0.5)))
                        (to_size_t cv (Real_round (vz sp + 0.5)))
                in Vector3_mul normal (- 1)))
      in \<lparr>v4x = vx normal, v4y = vy normal, v4z = vz normal,
          v4w = getValue cv acc g position\<rparr>)"

subsection \<open>Region bake\<close>

text \<open>
  A \<^verbatim>\<open>for (int i = start; i < end; ++i)\<close> loop whose body may throw: the body returns the
  exception it raised, if any, and the state it left behind; an exception ends the loop.
\<close>

function for_loop ::
  "int \<Rightarrow> int \<Rightarrow> (int \<Rightarrow> 'a \<Rightarrow> 'e option \<times> 'a) \<Rightarrow> 'a \<Rightarrow> 'e option \<times> 'a" where
  "for_loop i n body st =
     (if i < n then
        (case body i st of
           (None, st') \<Rightarrow> for_loop (i + 1) n body st'
         | (Some e, st') \<Rightarrow> (Some e, st'))
      else (None, st))"
  by pat_completeness auto
termination
  by (relation "measure (\<lambda>(i, n, body, st). nat (n - i))") auto

declare for_loop.simps [simp del]

record IterationBox =
  xStart :: int
  xEnd :: int
  yStart :: int
  yEnd :: int
  zStart :: int
  zEnd :: int

definition iterationBox ::
  "conversions \<Rightarrow> 's GridSource \<Rightarrow> Vector3 \<Rightarrow> real \<Rightarrow> IterationBox" where
  \<comment> \<open>the six bounds that \<^verbatim>\<open>combineWithSource\<close> computes before its loops\<close>
  "iterationBox cv g center radius =
     \<lparr>xStart = Clamp (to_int cv (vx center - radius)) 0 (mWidth g),
      xEnd = Clamp (to_int cv (vx center + radius)) 0 (mWidth g),
      yStart = Clamp (to_int cv (vy center - radius)) 0 (mHeight g),
      yEnd = Clamp (to_int cv (vy center + radius)) 0 (mHeight g),
      zStart = Clamp (to_int cv (vz center - radius)) 0 (mDepth g),
      zEnd = Clamp (to_int cv (vz center + radius)) 0 (mDepth g)\<rparr>"

text \<open>
  The state that the bake works on: the object itself and, in the order they are made, the
  calls of \<^verbatim>\<open>setVolumeGridValue\<close>.
\<close>

record 's bake_state =
  this :: "'s GridSource"
  written :: "(int \<times> int \<times> int \<times> real) list"

text \<open>
  The inverse scale factors only enter the position that is handed to the operator. (For a
  scale factor 0 the quotient is infinite in floating point and 0 here.)
\<close>

text \<open>
  The combination operator is opaque. After \<^verbatim>\<open>setSourceA(this)\<close> and
  \<^verbatim>\<open>setSourceB(source)\<close> its \<^verbatim>\<open>getValue(pos)\<close> may read the object as it is at the time of
  the call and the other source, and it may throw: it is a function of the two operands
  and the position that returns the exception or the value.
\<close>

type_synonym ('s, 'b, 'e) operation = "'s GridSource \<Rightarrow> 'b \<Rightarrow> Vector3 \<Rightarrow> 'e + real"

definition bakeCell ::
  "'s accessors \<Rightarrow> ('s, 'b, 'e) operation \<Rightarrow> 'b \<Rightarrow> real \<Rightarrow> real \<Rightarrow> real \<Rightarrow>
   int \<Rightarrow> int \<Rightarrow> int \<Rightarrow> 's bake_state \<Rightarrow> 'e option \<times> 's bake_state" where
  \<comment> \<open>the body of the innermost loop\<close>
  "bakeCell acc operation source worldWidthScale worldHeightScale worldDepthScale z y x st =
     (let pos = \<lparr>vx = of_int x * worldWidthScale,
                 vy = of_int y * worldHeightScale,
                 vz = of_int z * worldDepthScale\<rparr>
      in case operation (this st) source pos of
           Inl e \<Rightarrow> (Some e, st)
         | Inr val \<Rightarrow>
             (None,
              st\<lparr>this := (this st)\<lparr>lattice :=
                            setVolumeGridValue acc (lattice (this st)) x y z val\<rparr>,
                 written := written st @ [(x, y, z, val)]\<rparr>))"

definition combineWithSource ::
  "conversions \<Rightarrow> 's accessors \<Rightarrow> ('s, 'b, 'e) operation \<Rightarrow> 'b \<Rightarrow> 's GridSource \<Rightarrow>
   Vector3 \<Rightarrow> real \<Rightarrow> 'e option \<times> 's bake_state" where
  "combineWithSource cv acc operation source g center radius =
     (let worldWidthScale = 1 / mPosXScale g;
          worldHeightScale = 1 / mPosYScale g;
          worldDepthScale = 1 / mPosZScale g;
          oldTrilinearValue = mTrilinearValue g;
          st = \<lparr>this = g\<lparr>mTrilinearValue := False\<rparr>, written = []\<rparr>;
          b = iterationBox cv g center radius
      in case for_loop (zStart b) (zEnd b)
                (\<lambda>z. for_loop (yStart b) (yEnd b)
                   (\<lambda>y. for_loop (xStart b) (xEnd b)
                      (bakeCell acc operation source
                         worldWidthScale worldHeightScale worldDepthScale z y))) st of
           (Some e, st') \<Rightarrow> (Some e, st')
         | (None, st') \<Rightarrow>
             (None, st'\<lparr>this := (this st')\<lparr>mTrilinearValue := oldTrilinearValue\<rparr>\<rparr>))"

section \<open>Notions used to state the properties\<close>

definition in_box :: "IterationBox \<Rightarrow> int \<Rightarrow> int \<Rightarrow> int \<Rightarrow> bool" where
  \<comment> \<open>start bounds inclusive, end bounds exclusive\<close>
  "in_box b x y z \<longleftrightarrow>
     xStart b \<le> x \<and> x < xEnd b \<and> yStart b \<le> y \<and> y < yEnd b \<and> zStart b \<le> z \<and> z < zEnd b"

definition apply_writes :: "'s accessors \<Rightarrow> (int \<times> int \<times> int \<times> real) list \<Rightarrow> 's \<Rightarrow> 's" where
  \<comment> \<open>the storage after a sequence of \<^verbatim>\<open>setVolumeGridValue\<close> calls\<close>
  "apply_writes acc ws s = fold (\<lambda>(x, y, z, v) s'. setVolumeGridValue acc s' x y z v) ws s"

definition bake_loops ::
  "conversions \<Rightarrow> 's accessors \<Rightarrow> ('s, 'b, 'e) operation \<Rightarrow> 'b \<Rightarrow> 's GridSource \<Rightarrow>
   Vector3 \<Rightarrow> real \<Rightarrow> 'e option \<times> 's bake_state" where
  \<comment> \<open>the three nested loops of \<^const>\<open>combineWithSource\<close>, started as it starts them\<close>
  "bake_loops cv acc operation source g center radius =
     (let b = iterationBox cv g center radius in
      for_loop (zStart b) (zEnd b)
        (\<lambda>z. for_loop (yStart b) (yEnd b)
           (\<lambda>y. for_loop (xStart b) (xEnd b)
              (bakeCell acc operation source
                 (1 / mPosXScale g) (1 / mPosYScale g) (1 / mPosZScale g) z y)))
        \<lparr>this = g\<lparr>mTrilinearValue := False\<rparr>, written = []\<rparr>)"

definition bake_inv ::
  "'s accessors \<Rightarrow> 's GridSource \<Rightarrow> IterationBox \<Rightarrow> 's bake_state \<Rightarrow> bool" where
  \<comment> \<open>what holds of the state throughout the loops\<close>
  "bake_inv acc g b st \<longleftrightarrow>
     (\<forall>(x, y, z, v) \<in> set (written st). in_box b x y z) \<and>
     lattice (this st) = apply_writes acc (written st) (lattice g) \<and>
     (this st)\<lparr>lattice := lattice g\<rparr> = g\<lparr>mTrilinearValue := False\<rparr>"

definition storage_contract :: "'s accessors \<Rightarrow> (int \<times> int \<times> int) set \<Rightarrow> bool" where
  \<comment> \<open>among the lattice points of \<open>D\<close>, writing the sample at one point leaves the samples at
      all others as they are\<close>
  "storage_contract acc D \<longleftrightarrow>
     (\<forall>s x y z v i j k.
        (x, y, z) \<in> D \<and> (int i, int j, int k) \<in> D \<and> (int i, int j, int k) \<noteq> (x, y, z) \<longrightarrow>
        getVolumeGridValue acc (setVolumeGridValue acc s x y z v) i j k =
        getVolumeGridValue acc s i j k)"

definition latticePoints :: "'s GridSource \<Rightarrow> (int \<times> int \<times> int) set" where
  "latticePoints g =
     {(x, y, z). 0 \<le> x \<and> x < mWidth g \<and> 0 \<le> y \<and> y < mHeight g \<and> 0 \<le> z \<and> z < mDepth g}"

definition spec_iterationBox ::
  "conversions \<Rightarrow> 's GridSource \<Rightarrow> Vector3 \<Rightarrow> real \<Rightarrow> IterationBox" where
  \<comment> \<open>the iteration box in the words of the specification: center plus and minus radius
      is converted to lattice index space with the scale factor of the axis, then
      clamped\<close>
  "spec_iterationBox cv g center radius =
     \<lparr>xStart = Clamp (to_int cv ((vx center - radius) * mPosXScale g)) 0 (mWidth g),
      xEnd = Clamp (to_int cv ((vx center + radius) * mPosXScale g)) 0 (mWidth g),
      yStart = Clamp (to_int cv ((vy center - radius) * mPosYScale g)) 0 (mHeight g),
      yEnd = Clamp (to_int cv ((vy center + radius) * mPosYScale g)) 0 (mHeight g),
      zStart = Clamp (to_int cv ((vz center - radius) * mPosZScale g)) 0 (mDepth g),
      zEnd = Clamp (to_int cv ((vz center + radius) * mPosZScale g)) 0 (mDepth g)\<rparr>"

definition int_dimensions :: "'s GridSource \<Rightarrow> bool" where
  \<comment> \<open>the three dimensions are values of the type \<^verbatim>\<open>int\<close>\<close>
  "int_dimensions g \<longleftrightarrow>
     INT_MIN \<le> mWidth g \<and> mWidth g \<le> INT_MAX \<and>
     INT_MIN \<le> mHeight g \<and> mHeight g \<le> INT_MAX \<and>
     INT_MIN \<le> mDepth g \<and> mDepth g \<le> INT_MAX"

definition size_t_defined :: "real \<Rightarrow> bool" where
  \<comment> \<open>the conversion \<^verbatim>\<open>(size_t)r\<close> is defined\<close>
  "size_t_defined r \<longleftrightarrow> 0 \<le> trunc r \<and> trunc r \<le> int SIZE_MAX"

definition samplePoints :: "conversions \<Rightarrow> bool \<Rightarrow> Vector3 \<Rightarrow> (nat \<times> nat \<times> nat) set" where
  \<comment> \<open>the lattice points that a reconstruction at the scaled position \<open>sp\<close> visits: the
      eight corners when it interpolates, the nearest point when it does not\<close>
  "samplePoints cv trilinear sp =
     (if trilinear then
        {to_size_t cv (vx sp), to_size_t cv (ceil (vx sp))} \<times>
        {to_size_t cv (vy sp), to_size_t cv (ceil (vy sp))} \<times>
        {to_size_t cv (vz sp), to_size_t cv (ceil (vz sp))}
      else
        {(to_size_t cv (Real_round (vx sp + 0.5)), to_size_t cv (Real_round (vy sp + 0.5)), to_size_t cv (Real_round (vz sp + 0.5)))})"

definition component_accessors ::
  "(Vector3 \<Rightarrow> real) \<Rightarrow> 's accessors \<Rightarrow> bool \<Rightarrow> 's accessors" where
  \<comment> \<open>the accessors whose sample at a lattice point is the component \<open>c\<close> of the gradient
      there\<close>
  "component_accessors c acc sobel =
     acc\<lparr>getVolumeGridValue := (\<lambda>s x y z. c (getGradient acc s sobel x y z))\<rparr>"

definition reverseRay :: "'s GridSource \<Rightarrow> Ray \<Rightarrow> Ray" where
  \<comment> \<open>the ray \<^verbatim>\<open>inverted\<close> that \<^const>\<open>getIntersectionEnd\<close> builds: the origin advanced along
      the normalised direction by the length of the box's diagonal, the direction negated\<close>
  "reverseRay g ray =
     (let box = gridBox g;
          direction = normalisedCopy (mDirection ray);
          invertedDirection = Real_mul_Vector3 (- 1) direction;
          origin = Vector3_add (mOrigin ray)
                     (Vector3_mul direction (Vector3_length (getSize box)))
      in \<lparr>mOrigin = origin, mDirection = invertedDirection\<rparr>)"

definition sound_test :: "(Ray \<Rightarrow> AxisAlignedBox \<Rightarrow> bool \<times> real) \<Rightarrow> bool" where
  \<comment> \<open>a ray-box test that reports a hit only when some point of the ray lies in the box\<close>
  "sound_test intersects \<longleftrightarrow>
     (\<forall>ray box. fst (intersects ray box) \<longrightarrow>
        (\<exists>t\<ge>0. AxisAlignedBox_intersects box (getPoint ray t)))"

definition axis_entry :: "real \<Rightarrow> real \<Rightarrow> real \<Rightarrow> real \<Rightarrow> real" where
  \<comment> \<open>on one axis, the ray parameter at which a ray from \<open>p\<close> with direction \<open>d\<close> enters the
      slab between \<open>lo\<close> and \<open>hi\<close>\<close>
  "axis_entry p d lo hi = (if d = 0 then 0 else min ((lo - p) / d) ((hi - p) / d))"

definition entry_distance :: "Ray \<Rightarrow> AxisAlignedBox \<Rightarrow> real" where
  \<comment> \<open>the latest of the three entries, and not before the origin\<close>
  "entry_distance ray box =
     max 0
       (max (axis_entry (vx (mOrigin ray)) (vx (mDirection ray))
               (vx (mMinimum box)) (vx (mMaximum box)))
          (max (axis_entry (vy (mOrigin ray)) (vy (mDirection ray))
                  (vy (mMinimum box)) (vy (mMaximum box)))
               (axis_entry (vz (mOrigin ray)) (vz (mDirection ray))
                  (vz (mMinimum box)) (vz (mMaximum box)))))"

definition lerp :: "real \<Rightarrow> real \<Rightarrow> real \<Rightarrow> real" where
  \<comment> \<open>the blend of two samples by a fractional offset\<close>
  "lerp a b t = a * (1 - t) + b * t"

definition spec_trilinear :: "conversions \<Rightarrow> (nat \<Rightarrow> nat \<Rightarrow> nat \<Rightarrow> real) \<Rightarrow> Vector3 \<Rightarrow> real" where
  \<comment> \<open>trilinear reconstruction in the words of the specification, for samples \<open>F\<close> and a
      scaled position: the four samples of the near-Z face are blended by (dX, dY), the four
      of the far-Z face likewise, and the two results are blended by dZ\<close>
  "spec_trilinear cv F sp =
     (let x0 = to_size_t cv (vx sp); x1 = to_size_t cv (ceil (vx sp));
          y0 = to_size_t cv (vy sp); y1 = to_size_t cv (ceil (vy sp));
          z0 = to_size_t cv (vz sp); z1 = to_size_t cv (ceil (vz sp));
          dX = vx sp - real x0; dY = vy sp - real y0; dZ = vz sp - real z0;
          near = lerp (lerp (F x0 y0 z0) (F x1 y0 z0) dX) (lerp (F x0 y1 z0) (F x1 y1 z0) dX) dY;
          far = lerp (lerp (F x0 y0 z1) (F x1 y0 z1) dX) (lerp (F x0 y1 z1) (F x1 y1 z1) dX) dY
      in lerp near far dZ)"

definition spec_nearest :: "conversions \<Rightarrow> (nat \<Rightarrow> nat \<Rightarrow> nat \<Rightarrow> real) \<Rightarrow> Vector3 \<Rightarrow> real" where
  \<comment> \<open>nearest-neighbour lookup in the words of the specification: each scaled coordinate
      plus 0.5, truncated; that single sample\<close>
  "spec_nearest cv F sp =
     F (to_size_t cv (Real_round (vx sp + 0.5)))
       (to_size_t cv (Real_round (vy sp + 0.5)))
       (to_size_t cv (Real_round (vz sp + 0.5)))"

section \<open>A concrete grid\<close>

text \<open>
  A dense lattice of 4 by 4 by 4 cells with unit scale factors, every sample 1 except the
  sample 5 at (2, 2, 2), and simple operators to bake with.
\<close>

definition example_conversions :: conversions where
  "example_conversions =
     \<lparr>int_unrepresentable = (\<lambda>r. INT_MIN), size_t_unrepresentable = (\<lambda>r. 0)\<rparr>"

definition dense_accessors :: "(nat \<Rightarrow> nat \<Rightarrow> nat \<Rightarrow> real) accessors" where
  "dense_accessors =
     \<lparr>getVolumeGridValue = (\<lambda>s x y z. s x y z),
      getGradient = (\<lambda>s sobel x y z.
         \<lparr>vx = s (x + 1) y z - s x y z,
          vy = s x (y + 1) z - s x y z,
          vz = s x y (z + 1) - s x y z\<rparr>),
      setVolumeGridValue = (\<lambda>s x y z v.
         if 0 \<le> x \<and> 0 \<le> y \<and> 0 \<le> z
         then (\<lambda>i j k. if i = nat x \<and> j = nat y \<and> k = nat z then v else s i j k)
         else s)\<rparr>"

definition scenario_grid :: "(nat \<Rightarrow> nat \<Rightarrow> nat \<Rightarrow> real) GridSource" where
  "scenario_grid =
     \<lparr>mWidth = 4, mHeight = 4, mDepth = 4,
      mPosXScale = 1, mPosYScale = 1, mPosZScale = 1,
      mVolumeSpaceToWorldSpaceFactor = 1,
      mTrilinearValue = True, mTrilinearGradient = True, mSobelGradient = False,
      lattice = (\<lambda>x y z. if x = 2 \<and> y = 2 \<and> z = 2 then 5 else 1)\<rparr>"

definition constant_operation :: "real \<Rightarrow> ('s, unit, unit) operation" where
  "constant_operation c = (\<lambda>a b pos. Inr c)"

definition throwing_operation :: "('s, unit, unit) operation" where
  "throwing_operation = (\<lambda>a b pos. Inl ())"

definition half_scale_grid :: "(nat \<Rightarrow> nat \<Rightarrow> nat \<Rightarrow> real) GridSource" where
  \<comment> \<open>the same lattice spanning a world of 2 by 2 by 2 units: two cells per world unit\<close>
  "half_scale_grid = scenario_grid\<lparr>mPosXScale := 2, mPosYScale := 2, mPosZScale := 2\<rparr>"

definition nearest_grid :: "(nat \<Rightarrow> nat \<Rightarrow> nat \<Rightarrow> real) GridSource" where
  "nearest_grid = scenario_grid\<lparr>mTrilinearValue := False\<rparr>"

definition ramp_grid :: "(nat \<Rightarrow> nat \<Rightarrow> nat \<Rightarrow> real) GridSource" where
  \<comment> \<open>a field that increases along +x only\<close>
  "ramp_grid = scenario_grid\<lparr>lattice := (\<lambda>x y z. real x)\<rparr>"

definition wide_grid :: "(nat \<Rightarrow> nat \<Rightarrow> nat \<Rightarrow> real) GridSource" where
  \<comment> \<open>a lattice of 4194304 cells along x whose sample at \<open>(x, y, z)\<close> is \<open>x\<close>, sampled to the
      nearest neighbour\<close>
  "wide_grid =
     \<lparr>mWidth = 4194304, mHeight = 4, mDepth = 4,
      mPosXScale = 1, mPosYScale = 1, mPosZScale = 1,
      mVolumeSpaceToWorldSpaceFactor = 1,
      mTrilinearValue = False, mTrilinearGradient = False, mSobelGradient = False,
      lattice = (\<lambda>x y z. real x)\<rparr>"

definition box_grid :: "(nat \<Rightarrow> nat \<Rightarrow> nat \<Rightarrow> real) GridSource" where
  \<comment> \<open>a lattice of 2 by 3 by 6 cells, whose box has a diagonal of length 7\<close>
  "box_grid = scenario_grid\<lparr>mWidth := 2, mHeight := 3, mDepth := 6\<rparr>"

definition inside_ray :: Ray where
  "inside_ray = \<lparr>mOrigin = \<lparr>vx = 1, vy = 1, vz = 1\<rparr>, mDirection = \<lparr>vx = 1, vy = 0, vz = 0\<rparr>\<rparr>"

definition toward_ray :: Ray where
  "toward_ray = \<lparr>mOrigin = \<lparr>vx = - 1, vy = 1, vz = 1\<rparr>, mDirection = \<lparr>vx = 1, vy = 0, vz = 0\<rparr>\<rparr>"

definition away_ray :: Ray where
  \<comment> \<open>starts in front of the face \<open>x = 0\<close> and points away from the box\<close>
  "away_ray = \<lparr>mOrigin = \<lparr>vx = - 1, vy = 1, vz = 1\<rparr>, mDirection = \<lparr>vx = - 1, vy = 0, vz = 0\<rparr>\<rparr>"

definition beside_ray :: Ray where
  \<comment> \<open>runs parallel to the x axis beside the box\<close>
  "beside_ray = \<lparr>mOrigin = \<lparr>vx = - 1, vy = 5, vz = 1\<rparr>, mDirection = \<lparr>vx = 1, vy = 0, vz = 0\<rparr>\<rparr>"

section \<open>Properties of the loops\<close>

lemma for_loop_invariant:
  assumes "P st"
    and "\<And>i s. i0 \<le> i \<Longrightarrow> i < n \<Longrightarrow> P s \<Longrightarrow> P (snd (body i s))"
  shows "P (snd (for_loop i0 n body st))"
  using assms
proof (induction i0 n body st rule: for_loop.induct)
  case (1 i n body st)
  show ?case
  proof (cases "i < n")
    case False
    with "1.prems" show ?thesis by (simp add: for_loop.simps)
  next
    case True
    obtain r s' where b: "body i st = (r, s')" by (cases "body i st")
    have Ps': "P s'" using "1.prems"(2)[of i st] True "1.prems"(1) b by simp
    show ?thesis
    proof (cases r)
      case (Some e)
      with True b Ps' show ?thesis by (simp add: for_loop.simps[of i n])
    next
      case None
      have "P (snd (for_loop (i + 1) n body s'))"
        using "1.IH"[OF True b[symmetric] None Ps'] "1.prems"(2) by simp
      with True b None show ?thesis by (simp add: for_loop.simps[of i n])
    qed
  qed
qed

lemma for_loop_cong_invariant:
  assumes "P st"
    and "\<And>i s. i0 \<le> i \<Longrightarrow> i < n \<Longrightarrow> P s \<Longrightarrow> body i s = body' i s"
    and "\<And>i s. i0 \<le> i \<Longrightarrow> i < n \<Longrightarrow> P s \<Longrightarrow> P (snd (body i s))"
  shows "for_loop i0 n body st = for_loop i0 n body' st"
  using assms
proof (induction i0 n body st rule: for_loop.induct)
  case (1 i n body st)
  show ?case
  proof (cases "i < n")
    case False
    then show ?thesis by (simp add: for_loop.simps)
  next
    case True
    obtain r s' where b: "body i st = (r, s')" by (cases "body i st")
    have b': "body' i st = (r, s')" using "1.prems"(2)[of i st] True "1.prems"(1) b by simp
    have Ps': "P s'" using "1.prems"(3)[of i st] True "1.prems"(1) b by simp
    show ?thesis
    proof (cases r)
      case (Some e)
      with True b b' show ?thesis by (simp add: for_loop.simps[of i n])
    next
      case None
      have "for_loop (i + 1) n body s' = for_loop (i + 1) n body' s'"
        using "1.IH"[OF True b[symmetric] None Ps'] "1.prems"(2,3) by simp
      with True b b' None show ?thesis by (simp add: for_loop.simps[of i n])
    qed
  qed
qed

lemma bake_loops_invariant:
  assumes "P st"
    and step: "\<And>x y z s. xs \<le> x \<Longrightarrow> x < xe \<Longrightarrow> ys \<le> y \<Longrightarrow> y < ye \<Longrightarrow> zs \<le> z \<Longrightarrow> z < ze \<Longrightarrow>
                 P s \<Longrightarrow> P (snd (cell z y x s))"
  shows "P (snd (for_loop zs ze (\<lambda>z. for_loop ys ye (\<lambda>y. for_loop xs xe (cell z y))) st))"
proof (rule for_loop_invariant[where P = P, OF assms(1)])
  fix z s assume z: "zs \<le> z" "z < ze" and s: "P s"
  show "P (snd (for_loop ys ye (\<lambda>y. for_loop xs xe (cell z y)) s))"
  proof (rule for_loop_invariant[where P = P, OF s])
    fix y s' assume y: "ys \<le> y" "y < ye" and s': "P s'"
    show "P (snd (for_loop xs xe (cell z y) s'))"
      by (rule for_loop_invariant[where P = P, OF s']) (rule step[OF _ _ y z])
  qed
qed

lemma Clamp_lower: "0 \<le> Clamp v 0 w"
  by (simp add: Clamp_def)

lemma Clamp_upper: "i < Clamp v 0 w \<Longrightarrow> 0 \<le> i \<Longrightarrow> i < w"
  by (simp add: Clamp_def)

lemma Clamp_bounds: "0 \<le> w \<Longrightarrow> 0 \<le> Clamp v 0 w \<and> Clamp v 0 w \<le> w"
  by (simp add: Clamp_def)

lemma in_box_in_lattice:
  "in_box (iterationBox cv g center radius) x y z \<Longrightarrow>
   0 \<le> x \<and> x < mWidth g \<and> 0 \<le> y \<and> y < mHeight g \<and> 0 \<le> z \<and> z < mDepth g"
proof -
  assume b: "in_box (iterationBox cv g center radius) x y z"
  have x0: "0 \<le> x" and y0: "0 \<le> y" and z0: "0 \<le> z"
    using b Clamp_lower[of "to_int cv (vx center - radius)" "mWidth g"]
      Clamp_lower[of "to_int cv (vy center - radius)" "mHeight g"]
      Clamp_lower[of "to_int cv (vz center - radius)" "mDepth g"]
    by (simp_all add: in_box_def iterationBox_def)
  have "x < mWidth g"
    using b x0 Clamp_upper[of x "to_int cv (vx center + radius)" "mWidth g"]
    by (simp add: in_box_def iterationBox_def)
  moreover have "y < mHeight g"
    using b y0 Clamp_upper[of y "to_int cv (vy center + radius)" "mHeight g"]
    by (simp add: in_box_def iterationBox_def)
  moreover have "z < mDepth g"
    using b z0 Clamp_upper[of z "to_int cv (vz center + radius)" "mDepth g"]
    by (simp add: in_box_def iterationBox_def)
  ultimately show ?thesis using x0 y0 z0 by simp
qed

lemma bakeCell_inv:
  assumes "in_box b x y z" and "bake_inv acc g b st"
  shows "bake_inv acc g b (snd (bakeCell acc operation source sx sy sz z y x st))"
  using assms
  by (cases "operation (this st) source \<lparr>vx = of_int x * sx, vy = of_int y * sy, vz = of_int z * sz\<rparr>")
     (auto simp: bakeCell_def bake_inv_def apply_writes_def)

lemma bake_loops_inv:
  "bake_inv acc g (iterationBox cv g center radius)
     (snd (bake_loops cv acc operation source g center radius))"
  unfolding bake_loops_def Let_def
proof (rule bake_loops_invariant)
  show "bake_inv acc g (iterationBox cv g center radius) \<lparr>this = g\<lparr>mTrilinearValue := False\<rparr>, written = []\<rparr>"
    by (simp add: bake_inv_def apply_writes_def)
next
  fix x y z s
  assume "xStart (iterationBox cv g center radius) \<le> x" "x < xEnd (iterationBox cv g center radius)"
    "yStart (iterationBox cv g center radius) \<le> y" "y < yEnd (iterationBox cv g center radius)"
    "zStart (iterationBox cv g center radius) \<le> z" "z < zEnd (iterationBox cv g center radius)"
    and "bake_inv acc g (iterationBox cv g center radius) s"
  then show "bake_inv acc g (iterationBox cv g center radius)
               (snd (bakeCell acc operation source (1 / mPosXScale g) (1 / mPosYScale g) (1 / mPosZScale g) z y x s))"
    by (intro bakeCell_inv) (simp_all add: in_box_def)
qed

lemma combineWithSource_loops:
  "combineWithSource cv acc operation source g center radius =
     (case bake_loops cv acc operation source g center radius of
        (Some e, st') \<Rightarrow> (Some e, st')
      | (None, st') \<Rightarrow> (None, st'\<lparr>this := (this st')\<lparr>mTrilinearValue := mTrilinearValue g\<rparr>\<rparr>))"
  by (simp add: combineWithSource_def bake_loops_def Let_def)

lemma combineWithSource_written:
  "written (snd (combineWithSource cv acc operation source g center radius)) =
   written (snd (bake_loops cv acc operation source g center radius))"
  by (simp add: combineWithSource_loops split: prod.splits option.splits)

lemma combineWithSource_lattice:
  "lattice (this (snd (combineWithSource cv acc operation source g center radius))) =
   lattice (this (snd (bake_loops cv acc operation source g center radius)))"
  by (simp add: combineWithSource_loops split: prod.splits option.splits)

lemma bake_loops_cong:
  assumes "P st"
    and eq: "\<And>x y z s. P s \<Longrightarrow> cell z y x s = cell' z y x s"
    and pres: "\<And>x y z s. P s \<Longrightarrow> P (snd (cell z y x s))"
  shows "for_loop zs ze (\<lambda>z. for_loop ys ye (\<lambda>y. for_loop xs xe (cell z y))) st =
         for_loop zs ze (\<lambda>z. for_loop ys ye (\<lambda>y. for_loop xs xe (cell' z y))) st"
proof (rule for_loop_cong_invariant[where P = P
      and body = "\<lambda>z. for_loop ys ye (\<lambda>y. for_loop xs xe (cell z y))", OF assms(1)])
  fix z s assume s: "P s"
  show "for_loop ys ye (\<lambda>y. for_loop xs xe (cell z y)) s =
        for_loop ys ye (\<lambda>y. for_loop xs xe (cell' z y)) s"
  proof (rule for_loop_cong_invariant[where P = P
        and body = "\<lambda>y. for_loop xs xe (cell z y)", OF s])
    fix y s' assume s': "P s'"
    show "for_loop xs xe (cell z y) s' = for_loop xs xe (cell' z y) s'"
      by (rule for_loop_cong_invariant[where P = P and body = "cell z y", OF s'])
        (simp add: eq, simp add: pres)
    show "P (snd (for_loop xs xe (cell z y) s'))"
      by (rule for_loop_invariant[where P = P, OF s']) (simp add: pres)
  qed
  show "P (snd (for_loop ys ye (\<lambda>y. for_loop xs xe (cell z y)) s))"
  proof (rule for_loop_invariant[where P = P, OF s])
    fix y s' assume s': "P s'"
    show "P (snd (for_loop xs xe (cell z y) s'))"
      by (rule for_loop_invariant[where P = P, OF s']) (simp add: pres)
  qed
qed

lemma apply_writes_frame:
  assumes "storage_contract acc D"
    and "(int i, int j, int k) \<in> D"
    and "\<forall>(x, y, z, v) \<in> set ws. (x, y, z) \<in> D \<and> (x, y, z) \<noteq> (int i, int j, int k)"
  shows "getVolumeGridValue acc (apply_writes acc ws s) i j k = getVolumeGridValue acc s i j k"
  using assms(3)
proof (induction ws arbitrary: s)
  case Nil
  then show ?case by (simp add: apply_writes_def)
next
  case (Cons w ws)
  obtain x y z v where w: "w = (x, y, z, v)" by (cases w)
  from Cons.prems w have ne: "(x, y, z) \<in> D" "(int i, int j, int k) \<noteq> (x, y, z)" by auto
  have "getVolumeGridValue acc (apply_writes acc (w # ws) s) i j k =
        getVolumeGridValue acc (apply_writes acc ws (setVolumeGridValue acc s x y z v)) i j k"
    by (simp add: apply_writes_def w)
  also have "\<dots> = getVolumeGridValue acc (setVolumeGridValue acc s x y z v) i j k"
    using Cons.prems by (intro Cons.IH) simp
  also have "\<dots> = getVolumeGridValue acc s i j k"
    using assms(1,2) ne unfolding storage_contract_def by blast
  finally show ?case .
qed

lemma clear_flag_idem: "\<not> mTrilinearValue a \<Longrightarrow> a\<lparr>mTrilinearValue := False\<rparr> = a"
  by simp

lemma restore_fields:
  "a\<lparr>lattice := lattice g\<rparr> = g\<lparr>mTrilinearValue := False\<rparr> \<Longrightarrow>
   a\<lparr>mTrilinearValue := mTrilinearValue g, lattice := lattice g\<rparr> = g"
  by (cases a, cases g) simp

lemma bakeCell_flag:
  "\<not> mTrilinearValue (this s) \<Longrightarrow>
   \<not> mTrilinearValue (this (snd (bakeCell acc operation source sx sy sz z y x s)))"
  by (simp add: bakeCell_def split: sum.splits)

lemma bakeCell_flag_cong:
  "\<not> mTrilinearValue (this s) \<Longrightarrow>
   bakeCell acc operation source sx sy sz z y x s =
   bakeCell acc (\<lambda>a. operation (a\<lparr>mTrilinearValue := False\<rparr>)) source sx sy sz z y x s"
  by (simp add: bakeCell_def clear_flag_idem)

lemma bake_loops_flag_cong:
  "bake_loops cv acc operation source g center radius =
   bake_loops cv acc (\<lambda>a. operation (a\<lparr>mTrilinearValue := False\<rparr>)) source g center radius"
  unfolding bake_loops_def Let_def
  by (rule bake_loops_cong[where P = "\<lambda>s. \<not> mTrilinearValue (this s)"])
     (simp_all add: bakeCell_flag bakeCell_flag_cong[symmetric])

lemma frame_fields:
  "a\<lparr>lattice := l\<rparr> = g \<Longrightarrow>
   mWidth a = mWidth g \<and> mHeight a = mHeight g \<and> mDepth a = mDepth g \<and>
   mPosXScale a = mPosXScale g \<and> mPosYScale a = mPosYScale g \<and> mPosZScale a = mPosZScale g \<and>
   mVolumeSpaceToWorldSpaceFactor a = mVolumeSpaceToWorldSpaceFactor g \<and>
   mTrilinearValue a = mTrilinearValue g \<and> mTrilinearGradient a = mTrilinearGradient g \<and>
   mSobelGradient a = mSobelGradient g"
  by (cases a, cases g) simp

subsection \<open>The concrete grid, baked\<close>

lemma example_box:
  "iterationBox example_conversions scenario_grid \<lparr>vx = 4, vy = 4, vz = 4\<rparr> 2 =
     \<lparr>xStart = 2, xEnd = 4, yStart = 2, yEnd = 4, zStart = 2, zEnd = 4\<rparr>"
  by (simp add: iterationBox_def to_int_def trunc_def Clamp_def INT_MIN_def INT_MAX_def
        scenario_grid_def)

lemma example_written:
  "written (snd (combineWithSource example_conversions dense_accessors (constant_operation 7) ()
      scenario_grid \<lparr>vx = 4, vy = 4, vz = 4\<rparr> 2)) =
   [(2, 2, 2, 7), (3, 2, 2, 7), (2, 3, 2, 7), (3, 3, 2, 7),
    (2, 2, 3, 7), (3, 2, 3, 7), (2, 3, 3, 7), (3, 3, 3, 7)]"
  by (simp add: combineWithSource_def example_box for_loop.simps bakeCell_def
        constant_operation_def)

lemma example_normal:
  "fst (combineWithSource example_conversions dense_accessors (constant_operation 7) ()
      scenario_grid \<lparr>vx = 4, vy = 4, vz = 4\<rparr> 2) = None"
  by (simp add: combineWithSource_def example_box for_loop.simps bakeCell_def
        constant_operation_def)

lemma dense_storage_contract: "storage_contract dense_accessors UNIV"
  by (auto simp: storage_contract_def dense_accessors_def)

lemma example_throw:
  "combineWithSource example_conversions dense_accessors throwing_operation ()
      scenario_grid \<lparr>vx = 4, vy = 4, vz = 4\<rparr> 2 =
   (Some (), \<lparr>this = scenario_grid\<lparr>mTrilinearValue := False\<rparr>, written = []\<rparr>)"
  by (simp add: combineWithSource_def example_box for_loop.simps bakeCell_def
        throwing_operation_def)

section \<open>Region bake: where it writes\<close>

text \<open>
  C3. Whatever the center, the radius, the operator and the other source are,
  \<^const>\<open>combineWithSource\<close> calls \<^verbatim>\<open>setVolumeGridValue\<close> only at integer coordinates of its
  clamped box (start bounds inclusive, end bounds exclusive), and these satisfy
  \<open>0 \<le> x < mWidth\<close>, \<open>0 \<le> y < mHeight\<close> and \<open>0 \<le> z < mDepth\<close>, also when the sphere reaches
  beyond the lattice. The storage it leaves is the storage it found with exactly these
  writes applied in order.
\<close>

theorem combineWithSource_writes_in_lattice:
  "(\<forall>(x, y, z, v) \<in> set (written (snd (combineWithSource cv acc operation source g center radius))).
      in_box (iterationBox cv g center radius) x y z \<and>
      0 \<le> x \<and> x < mWidth g \<and> 0 \<le> y \<and> y < mHeight g \<and> 0 \<le> z \<and> z < mDepth g) \<and>
   lattice (this (snd (combineWithSource cv acc operation source g center radius))) =
     apply_writes acc (written (snd (combineWithSource cv acc operation source g center radius)))
       (lattice g)"
proof -
  let ?st = "snd (bake_loops cv acc operation source g center radius)"
  have inv: "bake_inv acc g (iterationBox cv g center radius) ?st"
    by (rule bake_loops_inv)
  have "in_box (iterationBox cv g center radius) x y z \<and>
      0 \<le> x \<and> x < mWidth g \<and> 0 \<le> y \<and> y < mHeight g \<and> 0 \<le> z \<and> z < mDepth g"
    if "(x, y, z, v) \<in> set (written ?st)" for x y z v
  proof -
    from inv that have "in_box (iterationBox cv g center radius) x y z"
      unfolding bake_inv_def by blast
    then show ?thesis using in_box_in_lattice by blast
  qed
  moreover have "lattice (this ?st) = apply_writes acc (written ?st) (lattice g)"
    using inv unfolding bake_inv_def by blast
  ultimately show ?thesis
    unfolding combineWithSource_written combineWithSource_lattice by blast
qed

theorem combineWithSource_writes_in_lattice_witness:
  "(3, 3, 3, 7) \<in> set (written (snd (combineWithSource example_conversions dense_accessors
      (constant_operation 7) () scenario_grid \<lparr>vx = 4, vy = 4, vz = 4\<rparr> 2))) \<and>
   (3::int) < mWidth scenario_grid \<and> (3::int) < mHeight scenario_grid \<and>
   (3::int) < mDepth scenario_grid"
proof -
  have m: "(3, 3, 3, 7) \<in> set (written (snd (combineWithSource example_conversions
      dense_accessors (constant_operation 7) () scenario_grid \<lparr>vx = 4, vy = 4, vz = 4\<rparr> 2)))"
    by (simp add: example_written)
  from combineWithSource_writes_in_lattice[of example_conversions dense_accessors
      "constant_operation 7" "()" scenario_grid "\<lparr>vx = 4, vy = 4, vz = 4\<rparr>" 2] m
  show ?thesis by blast
qed

section \<open>Region bake: the value-interpolation flag\<close>

text \<open>
  C1, as the code has it. \<^const>\<open>combineWithSource\<close> clears the value-interpolation flag for
  the duration of the bake: the operator is only ever evaluated on the object with the flag
  clear, so replacing the operator by one that sees the flag cleared changes nothing. When
  the loops run to completion the flag has its value from before the call again.
\<close>

theorem combineWithSource_flag:
  "(fst (combineWithSource cv acc operation source g center radius) = None \<longrightarrow>
      mTrilinearValue (this (snd (combineWithSource cv acc operation source g center radius))) =
      mTrilinearValue g) \<and>
   combineWithSource cv acc operation source g center radius =
   combineWithSource cv acc (\<lambda>a. operation (a\<lparr>mTrilinearValue := False\<rparr>)) source g center radius"
proof
  show "fst (combineWithSource cv acc operation source g center radius) = None \<longrightarrow>
      mTrilinearValue (this (snd (combineWithSource cv acc operation source g center radius))) =
      mTrilinearValue g"
    by (simp add: combineWithSource_loops split: prod.splits option.splits)
  show "combineWithSource cv acc operation source g center radius =
   combineWithSource cv acc (\<lambda>a. operation (a\<lparr>mTrilinearValue := False\<rparr>)) source g center radius"
    unfolding combineWithSource_loops
    using bake_loops_flag_cong[of cv acc operation source g center radius] by simp
qed

theorem combineWithSource_flag_witness:
  "fst (combineWithSource example_conversions dense_accessors (constant_operation 7) ()
      scenario_grid \<lparr>vx = 4, vy = 4, vz = 4\<rparr> 2) = None \<and>
   mTrilinearValue (this (snd (combineWithSource example_conversions dense_accessors
      (constant_operation 7) () scenario_grid \<lparr>vx = 4, vy = 4, vz = 4\<rparr> 2))) =
   mTrilinearValue scenario_grid"
  using combineWithSource_flag[of example_conversions dense_accessors "constant_operation 7"
      "()" scenario_grid "\<lparr>vx = 4, vy = 4, vz = 4\<rparr>" 2] example_normal
  by blast

text \<open>
  The claim that the flag is restored on every exit path fails: nothing catches an
  exception of the operator, so it leaves the function before the flag is restored. Here the
  flag is set before the call, the operator throws at the first lattice point, and the flag
  is clear afterwards.
\<close>

theorem combineWithSource_flag_counterexample:
  "mTrilinearValue scenario_grid \<and>
   fst (combineWithSource example_conversions dense_accessors throwing_operation ()
          scenario_grid \<lparr>vx = 4, vy = 4, vz = 4\<rparr> 2) = Some () \<and>
   \<not> mTrilinearValue (this (snd (combineWithSource example_conversions dense_accessors
          throwing_operation () scenario_grid \<lparr>vx = 4, vy = 4, vz = 4\<rparr> 2)))"
  by (simp add: example_throw) (simp add: scenario_grid_def)

section \<open>Region bake: the iteration box\<close>

text \<open>
  C2. The code truncates center plus and minus radius as they are, without the scale
  factor of the axis, and clamps the result. On the lattice of 4 cells per axis spanning 2
  world units, for the sphere of radius 1/2 around the world point (1, 1, 1), the code
  iterates over the single cell (0, 0, 0), where the conversion to lattice index space
  gives the cells 1 and 2 on every axis.
\<close>

theorem iterationBox_ignores_scale:
  "iterationBox example_conversions half_scale_grid \<lparr>vx = 1, vy = 1, vz = 1\<rparr> (1 / 2) =
     \<lparr>xStart = 0, xEnd = 1, yStart = 0, yEnd = 1, zStart = 0, zEnd = 1\<rparr> \<and>
   spec_iterationBox example_conversions half_scale_grid \<lparr>vx = 1, vy = 1, vz = 1\<rparr> (1 / 2) =
     \<lparr>xStart = 1, xEnd = 3, yStart = 1, yEnd = 3, zStart = 1, zEnd = 3\<rparr>"
  by (simp add: iterationBox_def spec_iterationBox_def to_int_def trunc_def Clamp_def
        INT_MIN_def INT_MAX_def half_scale_grid_def scenario_grid_def)

lemma iterationBox_unit_scale:
  "mPosXScale g = 1 \<Longrightarrow> mPosYScale g = 1 \<Longrightarrow> mPosZScale g = 1 \<Longrightarrow>
   iterationBox cv g center radius = spec_iterationBox cv g center radius"
  by (simp add: iterationBox_def spec_iterationBox_def)

section \<open>Region bake: what it leaves alone\<close>

text \<open>
  C10. Let \<open>D\<close> be a set of lattice points that contains those of the lattice
  \<open>[0, mWidth) \<times> [0, mHeight) \<times> [0, mDepth)\<close>, and let the storage be such that, within \<open>D\<close>,
  writing one sample leaves the others as they are. When \<^const>\<open>combineWithSource\<close> completes
  normally, every sample at a point of \<open>D\<close> outside the clamped box reads as before, and the
  dimensions, the three scale factors, the volume-space-to-world-space factor and the three
  flags (the value-interpolation flag among them, restored) are as before: the object
  differs from the one before the call in its storage only.
\<close>

theorem combineWithSource_frame:
  assumes normal: "fst (combineWithSource cv acc operation source g center radius) = None"
    and contract: "storage_contract acc D"
    and lattice: "latticePoints g \<subseteq> D"
    and g': "g' = this (snd (combineWithSource cv acc operation source g center radius))"
  shows "(\<forall>i j k. (int i, int j, int k) \<in> D \<and>
            \<not> in_box (iterationBox cv g center radius) (int i) (int j) (int k) \<longrightarrow>
            getVolumeGridValue acc (lattice g') i j k =
            getVolumeGridValue acc (lattice g) i j k) \<and>
         mWidth g' = mWidth g \<and> mHeight g' = mHeight g \<and> mDepth g' = mDepth g \<and>
         mPosXScale g' = mPosXScale g \<and> mPosYScale g' = mPosYScale g \<and>
         mPosZScale g' = mPosZScale g \<and>
         mVolumeSpaceToWorldSpaceFactor g' = mVolumeSpaceToWorldSpaceFactor g \<and>
         mTrilinearValue g' = mTrilinearValue g \<and>
         mTrilinearGradient g' = mTrilinearGradient g \<and>
         mSobelGradient g' = mSobelGradient g \<and>
         g'\<lparr>lattice := lattice g\<rparr> = g"
proof -
  let ?st = "snd (bake_loops cv acc operation source g center radius)"
  let ?b = "iterationBox cv g center radius"
  have inv: "bake_inv acc g ?b ?st" by (rule bake_loops_inv)
  have samples: "getVolumeGridValue acc (lattice (this ?st)) i j k =
      getVolumeGridValue acc (lattice g) i j k"
    if dom: "(int i, int j, int k) \<in> D" and out: "\<not> in_box ?b (int i) (int j) (int k)"
    for i j k
  proof -
    have "(x, y, z) \<in> D \<and> (x, y, z) \<noteq> (int i, int j, int k)"
      if w: "(x, y, z, v) \<in> set (written ?st)" for x y z v
    proof -
      from inv w have b: "in_box ?b x y z" unfolding bake_inv_def by blast
      then have "(x, y, z) \<in> latticePoints g"
        using in_box_in_lattice[of cv g center radius x y z] by (simp add: latticePoints_def)
      with lattice b out show ?thesis by blast
    qed
    then have "\<forall>(x, y, z, v) \<in> set (written ?st).
        (x, y, z) \<in> D \<and> (x, y, z) \<noteq> (int i, int j, int k)"
      by blast
    then show ?thesis
      using inv apply_writes_frame[OF contract dom] unfolding bake_inv_def by simp
  qed
  have fst_None: "fst (bake_loops cv acc operation source g center radius) = None"
    using normal by (simp add: combineWithSource_loops split: prod.splits option.splits)
  have this_eq: "g' = (this ?st)\<lparr>mTrilinearValue := mTrilinearValue g\<rparr>"
    unfolding g' using fst_None
    by (cases "bake_loops cv acc operation source g center radius")
      (simp add: combineWithSource_loops)
  have "(this ?st)\<lparr>lattice := lattice g\<rparr> = g\<lparr>mTrilinearValue := False\<rparr>"
    using inv unfolding bake_inv_def by blast
  then have "(this ?st)\<lparr>mTrilinearValue := mTrilinearValue g, lattice := lattice g\<rparr> = g"
    by (rule restore_fields)
  then have fields: "g'\<lparr>lattice := lattice g\<rparr> = g"
    by (simp add: this_eq)
  have lat: "lattice g' = lattice (this ?st)"
    by (simp add: this_eq)
  show ?thesis
    using samples frame_fields[OF fields] fields by (simp add: lat)
qed

theorem combineWithSource_frame_witness:
  "fst (combineWithSource example_conversions dense_accessors (constant_operation 7) ()
      scenario_grid \<lparr>vx = 4, vy = 4, vz = 4\<rparr> 2) = None \<and>
   getVolumeGridValue dense_accessors
     (lattice (this (snd (combineWithSource example_conversions dense_accessors
        (constant_operation 7) () scenario_grid \<lparr>vx = 4, vy = 4, vz = 4\<rparr> 2)))) 1 2 3 =
   getVolumeGridValue dense_accessors (lattice scenario_grid) 1 2 3 \<and>
   mTrilinearValue (this (snd (combineWithSource example_conversions dense_accessors
      (constant_operation 7) () scenario_grid \<lparr>vx = 4, vy = 4, vz = 4\<rparr> 2))) =
   mTrilinearValue scenario_grid"
proof -
  have out: "\<not> in_box (iterationBox example_conversions scenario_grid
      \<lparr>vx = 4, vy = 4, vz = 4\<rparr> 2) (int 1) (int 2) (int 3)"
    by (simp add: example_box in_box_def)
  from combineWithSource_frame[OF example_normal dense_storage_contract subset_UNIV refl] out
  show ?thesis using example_normal by simp
qed

section \<open>Rounding to the nearest float\<close>

lemma round_half_even_cases:
  "round_half_even q = \<lfloor>q\<rfloor> \<and> q - of_int \<lfloor>q\<rfloor> \<le> 1 / 2 \<or>
   round_half_even q = \<lfloor>q\<rfloor> + 1 \<and> 1 / 2 \<le> q - of_int \<lfloor>q\<rfloor>"
  by (auto simp: round_half_even_def Let_def)

lemma round_half_even_nearest:
  "\<bar>of_int (round_half_even q) - q\<bar> \<le> \<bar>of_int n - q\<bar>"
proof -
  consider "n \<le> \<lfloor>q\<rfloor>" | "\<lfloor>q\<rfloor> + 1 \<le> n" by linarith
  then show ?thesis
  proof cases
    case 1
    then have "of_int n \<le> (of_int \<lfloor>q\<rfloor> :: real)" by simp
    then show ?thesis using round_half_even_cases[of q] by (auto; linarith)
  next
    case 2
    then have "(of_int \<lfloor>q\<rfloor> :: real) + 1 \<le> of_int n" by (metis of_int_1 of_int_add of_int_le_iff)
    then show ?thesis using round_half_even_cases[of q] by (auto; linarith)
  qed
qed

lemma round_half_even_ge: "of_int n \<le> q \<Longrightarrow> n \<le> round_half_even q"
proof -
  assume "of_int n \<le> q"
  then have "n \<le> \<lfloor>q\<rfloor>" by (simp add: le_floor_iff)
  then show ?thesis using round_half_even_cases[of q] by auto
qed

lemma round_half_even_le: "q \<le> of_int n \<Longrightarrow> round_half_even q \<le> n"
proof -
  assume h: "q \<le> of_int n"
  show ?thesis
  proof (cases "q = of_int \<lfloor>q\<rfloor>")
    case True
    then have "round_half_even q = \<lfloor>q\<rfloor>" by (simp add: round_half_even_def Let_def)
    moreover have "\<lfloor>q\<rfloor> \<le> n" using h by (simp add: floor_le_iff)
    ultimately show ?thesis by simp
  next
    case False
    then have "of_int \<lfloor>q\<rfloor> < q" using of_int_floor_le[of q] by linarith
    then have "of_int \<lfloor>q\<rfloor> < (of_int n :: real)" using h by linarith
    then have "\<lfloor>q\<rfloor> + 1 \<le> n" by simp
    then show ?thesis using round_half_even_cases[of q] by auto
  qed
qed

lemma Real_exponent_le:
  assumes "0 < r" and "r < 2 ^ (24 - m)" and "m \<le> 24"
  shows "Real_exponent r \<le> 23 - int m"
proof -
  have "r < 2 powr real (24 - m)" using assms(2) by (simp add: powr_realpow)
  then have "log 2 r < real (24 - m)" using assms(1) by (simp add: log_less_iff)
  then have "\<lfloor>log 2 r\<rfloor> < int (24 - m)" by (simp add: floor_less_iff)
  then have "\<lfloor>log 2 r\<rfloor> \<le> 23 - int m" using assms(3) by linarith
  then show ?thesis using assms(1,3) by (simp add: Real_exponent_def)
qed

lemma grid_multiple:
  assumes "Real_exponent r \<le> 23 - int m"
  shows "\<exists>N::int. of_int n / 2 ^ m = of_int N * Real_ulp r"
proof -
  let ?k = "23 - int m - Real_exponent r"
  have k: "0 \<le> ?k" using assms by simp
  have s: "?k + (Real_exponent r - 23) = - int m" by simp
  have "(2::real) powi ?k * 2 powi (Real_exponent r - 23) = 2 powi (?k + (Real_exponent r - 23))"
    by (rule power_int_add[symmetric]) simp
  also have "\<dots> = 2 powi (- int m)" by (simp only: s)
  also have "\<dots> = 1 / 2 ^ m" by (simp add: power_int_minus field_simps)
  finally have "(2::real) powi ?k * Real_ulp r = 1 / 2 ^ m" by (simp add: Real_ulp_def)
  moreover have "(2::real) powi ?k = of_int (2 ^ nat ?k)" using k by (simp add: power_int_def)
  ultimately have "(1::real) / 2 ^ m = of_int (2 ^ nat ?k) * Real_ulp r" by simp
  then have "of_int n / 2 ^ m = of_int (n * 2 ^ nat ?k) * Real_ulp r"
    by (simp add: field_simps)
  then show ?thesis by blast
qed

lemma Real_ulp_pos: "0 < Real_ulp r"
  by (simp add: Real_ulp_def)

lemma Real_round_grid:
  assumes "0 < r" and "r < 2 ^ (24 - m)" and "m \<le> 24"
  shows "\<bar>Real_round r - r\<bar> \<le> \<bar>of_int n / 2 ^ m - r\<bar>"
    and "of_int n / 2 ^ m \<le> r \<Longrightarrow> of_int n / 2 ^ m \<le> Real_round r"
    and "r \<le> of_int n / 2 ^ m \<Longrightarrow> Real_round r \<le> of_int n / 2 ^ m"
proof -
  let ?u = "Real_ulp r"
  have u: "0 < ?u" by (rule Real_ulp_pos)
  obtain N :: int where N: "of_int n / 2 ^ m = of_int N * ?u"
    using grid_multiple[OF Real_exponent_le[OF assms]] by blast
  have R: "Real_round r = of_int (round_half_even (r / ?u)) * ?u"
    using assms(1) by (simp add: Real_round_def)
  have r: "r = (r / ?u) * ?u" using u by simp
  have scale: "\<bar>a * ?u - r\<bar> = \<bar>a - r / ?u\<bar> * ?u" for a
  proof -
    have "a * ?u - r = (a - r / ?u) * ?u" using u by (simp add: field_simps)
    then show ?thesis using u by (simp add: abs_mult)
  qed
  have "\<bar>Real_round r - r\<bar> = \<bar>of_int (round_half_even (r / ?u)) - r / ?u\<bar> * ?u"
    unfolding R by (rule scale)
  also have "\<dots> \<le> \<bar>of_int N - r / ?u\<bar> * ?u"
    using u round_half_even_nearest[of "r / ?u" N] by (simp add: mult_right_mono)
  also have "\<dots> = \<bar>of_int n / 2 ^ m - r\<bar>"
    unfolding N by (rule scale[symmetric])
  finally show "\<bar>Real_round r - r\<bar> \<le> \<bar>of_int n / 2 ^ m - r\<bar>" .
  show "of_int n / 2 ^ m \<le> Real_round r" if "of_int n / 2 ^ m \<le> r"
  proof -
    from that have "of_int N \<le> r / ?u" using u by (simp add: N pos_le_divide_eq)
    then have "N \<le> round_half_even (r / ?u)" by (rule round_half_even_ge)
    then have "of_int N * ?u \<le> of_int (round_half_even (r / ?u)) * ?u"
      using u by (simp add: mult_right_mono)
    then show ?thesis by (simp add: N R)
  qed
  show "Real_round r \<le> of_int n / 2 ^ m" if "r \<le> of_int n / 2 ^ m"
  proof -
    from that have "r / ?u \<le> of_int N" using u by (simp add: N pos_divide_le_eq)
    then have "round_half_even (r / ?u) \<le> N" by (rule round_half_even_le)
    then have "of_int (round_half_even (r / ?u)) * ?u \<le> of_int N * ?u"
      using u by (simp add: mult_right_mono)
    then show ?thesis by (simp add: N R)
  qed
qed

lemma Real_round_binade:
  assumes "2 powi e \<le> r" and "r < 2 powi (e + 1)" and "- 126 \<le> e"
  shows "Real_round r = of_int (round_half_even (r / 2 powi (e - 23))) * 2 powi (e - 23)"
proof -
  have "0 < (2::real) powi e" by simp
  with assms(1) have pos: "0 < r" by linarith
  have "(2::real) powr of_int e = 2 powi e"
    by (rule powr_real_of_int') simp_all
  moreover have "(2::real) powr (of_int e + 1) = 2 powi (e + 1)"
    using powr_real_of_int'[of 2 "e + 1"] by simp
  ultimately have "\<lfloor>log 2 r\<rfloor> = e"
    using pos assms(1,2) floor_log_eq_powr_iff[of r 2 e] by simp
  then have "Real_exponent r = e" using pos assms(3) by (simp add: Real_exponent_def)
  then show ?thesis using pos by (simp add: Real_round_def Real_ulp_def)
qed

lemma Real_round_fixed:
  assumes "0 \<le> n" and "of_int n / 2 ^ m < (2::real) ^ (24 - m)" and "m \<le> 24"
  shows "Real_round (of_int n / 2 ^ m) = of_int n / 2 ^ m"
proof (cases "n = 0")
  case True
  then show ?thesis by (simp add: Real_round_def)
next
  case False
  with assms(1) have "0 < (of_int n :: real) / 2 ^ m" by simp
  from Real_round_grid(2,3)[OF this assms(2,3), of n] show ?thesis by simp
qed

lemma Real_round_half [simp]: "Real_round (1 / 2) = 1 / 2"
  using Real_round_fixed[of 1 1] by simp

lemma Real_round_2 [simp]: "Real_round 2 = 2"
  using Real_round_fixed[of 2 0] by simp

lemma Real_round_5_halves [simp]: "Real_round (5 / 2) = 5 / 2"
  using Real_round_fixed[of 5 1] by simp

lemma to_size_t_between:
  assumes "real n \<le> r" and "r < real n + 1" and "n \<le> SIZE_MAX"
  shows "to_size_t cv r = n"
proof -
  have "\<lfloor>r\<rfloor> = int n" using assms(1,2) by linarith
  moreover have "0 \<le> r" using assms(1) by (meson of_nat_0_le_iff order_trans)
  ultimately have "trunc r = int n" by (simp add: trunc_def)
  then show ?thesis using assms(3) by (simp add: to_size_t_def)
qed

text \<open>
  The two roundings of the nearest-neighbour lookup at 0.4 and at 0.6 beyond a lattice
  coordinate below \<open>2 ^ 21\<close>, where the spacing of \<^verbatim>\<open>float\<close> is at most 1/8.
\<close>

lemma nearest_index_04:
  assumes "i < 2 ^ 21"
  shows "real i \<le> Real_round (Real_round (real i + 0.4) + 0.5)"
    and "Real_round (Real_round (real i + 0.4) + 0.5) < real i + 1"
proof -
  let ?r = "real i + 0.4"
  let ?p = "Real_round ?r"
  have i: "real i \<le> 2 ^ 21 - 1"
    using assms by (metis of_nat_1 of_nat_add of_nat_le_iff of_nat_numeral of_nat_power
        Suc_eq_plus1 Suc_leI le_diff_eq)
  have r: "0 < ?r" "?r < 2 ^ (24 - 3)" using i by simp_all
  have g: "of_int (8 * int i + 3) / 2 ^ 3 = real i + 3 / 8" by simp
  have p_lo: "real i + 3 / 8 \<le> ?p"
    using Real_round_grid(2)[OF r, of "8 * int i + 3"] by (simp add: g)
  have "\<bar>?p - ?r\<bar> \<le> \<bar>of_int (8 * int i + 3) / 2 ^ 3 - ?r\<bar>"
    by (rule Real_round_grid(1)[OF r]) simp
  then have p_hi: "?p \<le> real i + 17 / 40" unfolding g by linarith
  let ?s = "?p + 0.5"
  have s: "0 < ?s" "?s < 2 ^ (24 - 3)" using p_lo p_hi i by simp_all
  have g': "of_int (8 * int i + 7) / 2 ^ 3 = real i + 7 / 8" by simp
  have q_lo: "real i + 7 / 8 \<le> Real_round ?s"
    using Real_round_grid(2)[OF s, of "8 * int i + 7"] p_lo by (simp add: g')
  have "\<bar>Real_round ?s - ?s\<bar> \<le> \<bar>of_int (8 * int i + 7) / 2 ^ 3 - ?s\<bar>"
    by (rule Real_round_grid(1)[OF s]) simp
  then have q_hi: "Real_round ?s \<le> real i + 39 / 40" unfolding g' using p_lo p_hi by linarith
  show "real i \<le> Real_round ?s" using q_lo by linarith
  show "Real_round ?s < real i + 1" using q_hi by linarith
qed

lemma nearest_index_06:
  assumes "i < 2 ^ 21"
  shows "real (i + 1) \<le> Real_round (Real_round (real i + 0.6) + 0.5)"
    and "Real_round (Real_round (real i + 0.6) + 0.5) < real (i + 1) + 1"
proof -
  let ?r = "real i + 0.6"
  let ?p = "Real_round ?r"
  have i: "real i \<le> 2 ^ 21 - 1"
    using assms by (metis of_nat_1 of_nat_add of_nat_le_iff of_nat_numeral of_nat_power
        Suc_eq_plus1 Suc_leI le_diff_eq)
  have r: "0 < ?r" "?r < 2 ^ (24 - 3)" using i by simp_all
  have g1: "of_int (8 * int i + 4) / 2 ^ 3 = real i + 0.5" by simp
  have g2: "of_int (8 * int i + 5) / 2 ^ 3 = real i + 5 / 8" by simp
  have p_lo: "real i + 0.5 \<le> ?p"
    using Real_round_grid(2)[OF r, of "8 * int i + 4"] by (simp add: g1)
  have p_hi: "?p \<le> real i + 5 / 8"
    using Real_round_grid(3)[OF r, of "8 * int i + 5"] by (simp add: g2)
  let ?s = "?p + 0.5"
  have s: "0 < ?s" "?s < 2 ^ (24 - 2)" using p_lo p_hi i by simp_all
  have g3: "of_int (4 * int i + 4) / 2 ^ 2 = real i + 1" by simp
  have g4: "of_int (4 * int i + 5) / 2 ^ 2 = real i + 5 / 4" by simp
  have q_lo: "real i + 1 \<le> Real_round ?s"
    using Real_round_grid(2)[OF s, of "4 * int i + 4"] p_lo by (simp add: g3)
  have q_hi: "Real_round ?s \<le> real i + 5 / 4"
    using Real_round_grid(3)[OF s, of "4 * int i + 5"] p_hi by (simp add: g4)
  show "real (i + 1) \<le> Real_round ?s" using q_lo by simp
  show "Real_round ?s < real (i + 1) + 1" using q_hi by simp
qed

lemma nearest_index_exact:
  assumes "j < 2 ^ 23"
  shows "Real_round (real j + 0.5) = real j + 0.5"
proof -
  have j: "real j \<le> 2 ^ 23 - 1"
    using assms by (metis of_nat_1 of_nat_add of_nat_le_iff of_nat_numeral of_nat_power
        Suc_eq_plus1 Suc_leI le_diff_eq)
  have g: "of_int (2 * int j + 1) / 2 ^ 1 = real j + 0.5" by simp
  have "Real_round (of_int (2 * int j + 1) / 2 ^ 1) = of_int (2 * int j + 1) / 2 ^ 1"
    using j by (intro Real_round_fixed) (simp_all add: g)
  then show ?thesis by (simp only: g)
qed

section \<open>Field evaluation\<close>

lemma trunc_of_nat [simp]: "trunc (real n) = int n"
  by (simp add: trunc_def)

lemma to_size_t_of_nat: "n \<le> SIZE_MAX \<Longrightarrow> to_size_t cv (real n) = n"
  by (simp add: to_size_t_def)

lemma ceil_of_nat [simp]: "ceil (real n) = real n"
  by (simp add: ceil_def)

lemma INT_MAX_le_SIZE_MAX: "int n \<le> INT_MAX \<Longrightarrow> n \<le> SIZE_MAX"
  by (simp add: INT_MAX_def SIZE_MAX_def)

text \<open>
  C4. With the value-interpolation flag set, at a position whose scaled coordinates are
  the integers \<open>i\<close>, \<open>j\<close>, \<open>k\<close> within \<open>[0, mWidth]\<close>, \<open>[0, mHeight]\<close>, \<open>[0, mDepth]\<close>,
  \<^const>\<open>getValue\<close> returns the stored sample at \<open>(i, j, k)\<close>: floor and ceiling indices
  coincide, the fractional offsets are 0, and the blend reduces to the first corner.
\<close>

theorem getValue_at_lattice_point:
  assumes "mTrilinearValue g"
    and "int_dimensions g"
    and "scaledPosition g position = \<lparr>vx = real i, vy = real j, vz = real k\<rparr>"
    and "int i \<le> mWidth g" and "int j \<le> mHeight g" and "int k \<le> mDepth g"
  shows "getValue cv acc g position = getVolumeGridValue acc (lattice g) i j k"
proof -
  have "i \<le> SIZE_MAX" "j \<le> SIZE_MAX" "k \<le> SIZE_MAX"
    using assms(2,4,5,6) by (auto simp: int_dimensions_def intro!: INT_MAX_le_SIZE_MAX)
  then show ?thesis
    using assms(1,3) by (simp add: getValue_def Let_def to_size_t_of_nat)
qed

theorem getValue_at_lattice_point_witness:
  "getValue example_conversions dense_accessors scenario_grid \<lparr>vx = 2, vy = 2, vz = 2\<rparr> = 5"
proof -
  have "getValue example_conversions dense_accessors scenario_grid \<lparr>vx = 2, vy = 2, vz = 2\<rparr> =
      getVolumeGridValue dense_accessors (lattice scenario_grid) 2 2 2"
    by (rule getValue_at_lattice_point)
      (simp_all add: scenario_grid_def int_dimensions_def INT_MIN_def INT_MAX_def
         scaledPosition_def)
  then show ?thesis by (simp add: scenario_grid_def dense_accessors_def)
qed

lemma scenario_midpoint:
  "getValue example_conversions dense_accessors scenario_grid \<lparr>vx = 3 / 2, vy = 2, vz = 2\<rparr> = 3"
  by (simp add: getValue_def scenario_grid_def dense_accessors_def scaledPosition_def
        to_size_t_def trunc_def ceil_def SIZE_MAX_def Let_def)

text \<open>
  C8, as the code has it. With the value-interpolation flag clear, \<^const>\<open>getValue\<close> fetches
  the single sample whose indices are the truncations of the scaled coordinates plus 0.5,
  the sum being rounded to \<^verbatim>\<open>float\<close>, with no blending. With unit scale factors, for lattice
  coordinates \<open>i < 2 ^ 21\<close> and \<open>j, k < 2 ^ 23\<close>, the value at the \<^verbatim>\<open>float\<close> position nearest
  \<open>(i + 0.4, j, k)\<close> is the sample at \<open>(i, j, k)\<close> and the value at the one nearest
  \<open>(i + 0.6, j, k)\<close> is the sample at \<open>(i + 1, j, k)\<close>.
\<close>

theorem getValue_nearest_float:
  assumes "\<not> mTrilinearValue g"
  shows "getValue cv acc g position =
           getVolumeGridValue acc (lattice g)
             (to_size_t cv (Real_round (vx (scaledPosition g position) + 0.5)))
             (to_size_t cv (Real_round (vy (scaledPosition g position) + 0.5)))
             (to_size_t cv (Real_round (vz (scaledPosition g position) + 0.5))) \<and>
         (mPosXScale g = 1 \<and> mPosYScale g = 1 \<and> mPosZScale g = 1 \<and>
          i < 2 ^ 21 \<and> j < 2 ^ 23 \<and> k < 2 ^ 23 \<longrightarrow>
            getValue cv acc g \<lparr>vx = Real_round (real i + 0.4), vy = real j, vz = real k\<rparr> =
              getVolumeGridValue acc (lattice g) i j k \<and>
            getValue cv acc g \<lparr>vx = Real_round (real i + 0.6), vy = real j, vz = real k\<rparr> =
              getVolumeGridValue acc (lattice g) (i + 1) j k)"
proof (intro conjI impI)
  show "getValue cv acc g position =
           getVolumeGridValue acc (lattice g)
             (to_size_t cv (Real_round (vx (scaledPosition g position) + 0.5)))
             (to_size_t cv (Real_round (vy (scaledPosition g position) + 0.5)))
             (to_size_t cv (Real_round (vz (scaledPosition g position) + 0.5)))"
    using assms by (simp add: getValue_def Let_def)
next
  assume h: "mPosXScale g = 1 \<and> mPosYScale g = 1 \<and> mPosZScale g = 1 \<and>
          i < 2 ^ 21 \<and> j < 2 ^ 23 \<and> k < 2 ^ 23"
  then have s: "i + 1 \<le> SIZE_MAX" "j \<le> SIZE_MAX" "k \<le> SIZE_MAX"
    by (simp_all add: SIZE_MAX_def)
  have x4: "to_size_t cv (Real_round (Real_round (real i + 0.4) + 0.5)) = i"
    using h s(1) by (intro to_size_t_between nearest_index_04) simp_all
  have x6: "to_size_t cv (Real_round (Real_round (real i + 0.6) + 0.5)) = i + 1"
    using h s(1) by (intro to_size_t_between nearest_index_06) simp_all
  have y: "to_size_t cv (Real_round (real j + 0.5)) = j"
  proof -
    have e: "Real_round (real j + 0.5) = real j + 0.5"
      using h by (intro nearest_index_exact) simp
    show ?thesis unfolding e using s(2) by (intro to_size_t_between) simp_all
  qed
  have z: "to_size_t cv (Real_round (real k + 0.5)) = k"
  proof -
    have e: "Real_round (real k + 0.5) = real k + 0.5"
      using h by (intro nearest_index_exact) simp
    show ?thesis unfolding e using s(3) by (intro to_size_t_between) simp_all
  qed
  have sp: "scaledPosition g \<lparr>vx = a, vy = b, vz = c\<rparr> = \<lparr>vx = a, vy = b, vz = c\<rparr>" for a b c
    using h by (simp add: scaledPosition_def)
  show "getValue cv acc g \<lparr>vx = Real_round (real i + 0.4), vy = real j, vz = real k\<rparr> =
              getVolumeGridValue acc (lattice g) i j k"
    using assms unfolding getValue_def Let_def sp by (simp only: x4 y z Vector3.simps if_False)
  show "getValue cv acc g \<lparr>vx = Real_round (real i + 0.6), vy = real j, vz = real k\<rparr> =
              getVolumeGridValue acc (lattice g) (i + 1) j k"
    using assms unfolding getValue_def Let_def sp by (simp only: x6 y z Vector3.simps if_False)
qed

theorem getValue_nearest_float_witness:
  "getValue example_conversions dense_accessors nearest_grid
     \<lparr>vx = Real_round (real 1 + 0.4), vy = real 2, vz = real 2\<rparr> = 1 \<and>
   getValue example_conversions dense_accessors nearest_grid
     \<lparr>vx = Real_round (real 1 + 0.6), vy = real 2, vz = real 2\<rparr> = 5"
proof -
  have n: "\<not> mTrilinearValue nearest_grid"
    by (simp add: nearest_grid_def)
  have h: "mPosXScale nearest_grid = 1 \<and> mPosYScale nearest_grid = 1 \<and>
      mPosZScale nearest_grid = 1 \<and> (1::nat) < 2 ^ 21 \<and> (2::nat) < 2 ^ 23 \<and> (2::nat) < 2 ^ 23"
    by (simp add: nearest_grid_def scenario_grid_def)
  have s: "getVolumeGridValue dense_accessors (lattice nearest_grid) 1 2 2 = 1"
    "getVolumeGridValue dense_accessors (lattice nearest_grid) (1 + 1) 2 2 = 5"
    by (simp_all add: nearest_grid_def scenario_grid_def dense_accessors_def)
  from getValue_nearest_float[OF n, of example_conversions dense_accessors
      "\<lparr>vx = 0, vy = 0, vz = 0\<rparr>" 1 2 2] h
  have "getValue example_conversions dense_accessors nearest_grid
          \<lparr>vx = Real_round (real 1 + 0.4), vy = real 2, vz = real 2\<rparr> =
        getVolumeGridValue dense_accessors (lattice nearest_grid) 1 2 2 \<and>
        getValue example_conversions dense_accessors nearest_grid
          \<lparr>vx = Real_round (real 1 + 0.6), vy = real 2, vz = real 2\<rparr> =
        getVolumeGridValue dense_accessors (lattice nearest_grid) (1 + 1) 2 2"
    by blast
  then show ?thesis unfolding s .
qed

text \<open>
  The bound on the coordinate is needed. From \<open>2 ^ 21 = 2097152\<close> on, neighbouring
  \<^verbatim>\<open>float\<close>s are 1/4 apart: the position nearest \<open>2097152 + 0.4\<close> is \<open>2097152.5\<close>, the sum
  with 0.5 is \<open>2097153\<close>, and on a lattice of 4194304 cells along x the code reads the sample
  at \<open>x + 1\<close>, not the one at \<open>x\<close>.
\<close>

lemma Real_round_2097152: "Real_round (2097152 + 0.4) = 2097152.5"
  by (subst Real_round_binade[where e = 21]) (simp_all add: round_half_even_def power_int_minus)

lemma Real_round_2097153: "Real_round (2097152.5 + 0.5) = 2097153"
  by (subst Real_round_binade[where e = 21]) (simp_all add: round_half_even_def power_int_minus)

theorem getValue_nearest_counterexample:
  "\<not> mTrilinearValue wide_grid \<and>
   mPosXScale wide_grid = 1 \<and> mPosYScale wide_grid = 1 \<and> mPosZScale wide_grid = 1 \<and>
   (2097152::int) < mWidth wide_grid \<and>
   getVolumeGridValue dense_accessors (lattice wide_grid) 2097152 0 0 = 2097152 \<and>
   getValue example_conversions dense_accessors wide_grid
     \<lparr>vx = Real_round (2097152 + 0.4), vy = 0, vz = 0\<rparr> = 2097153"
proof -
  have sp: "scaledPosition wide_grid \<lparr>vx = a, vy = b, vz = c\<rparr> = \<lparr>vx = a, vy = b, vz = c\<rparr>"
    for a b c
    by (simp add: scaledPosition_def wide_grid_def)
  have x: "to_size_t example_conversions (Real_round (Real_round (2097152 + 0.4) + 0.5)) =
      2097153"
    unfolding Real_round_2097152 Real_round_2097153
    by (simp add: to_size_t_def trunc_def SIZE_MAX_def)
  have "getValue example_conversions dense_accessors wide_grid
     \<lparr>vx = Real_round (2097152 + 0.4), vy = 0, vz = 0\<rparr> =
     getVolumeGridValue dense_accessors (lattice wide_grid)
       (to_size_t example_conversions (Real_round (Real_round (2097152 + 0.4) + 0.5)))
       (to_size_t example_conversions (Real_round (0 + 0.5)))
       (to_size_t example_conversions (Real_round (0 + 0.5)))"
    unfolding getValue_def Let_def sp by (simp add: wide_grid_def)
  also have "\<dots> = 2097153"
    unfolding x by (simp add: wide_grid_def dense_accessors_def)
  finally show ?thesis
    by (simp add: wide_grid_def dense_accessors_def)
qed

text \<open>
  Below the half: the \<^verbatim>\<open>float\<close> just under 0.5 plus 0.5 rounds to 1, and the sample read is
  the one at index 1.
\<close>

lemma getValue_nearest_below_half:
  "getValue example_conversions dense_accessors wide_grid
     \<lparr>vx = 1 / 2 - 1 / 2 ^ 25, vy = 0, vz = 0\<rparr> = 1"
proof -
  have r: "Real_round (33554431 / 33554432) = 1"
    by (subst Real_round_binade[where e = "- 1"])
      (simp_all add: round_half_even_def power_int_minus)
  show ?thesis
    unfolding getValue_def Let_def scaledPosition_def
    by (simp add: wide_grid_def dense_accessors_def r to_size_t_def trunc_def SIZE_MAX_def)
qed

section \<open>Gradient reconstruction\<close>

lemma lin_pos:
  fixes u v t :: real
  assumes "0 < u" and "0 < v" and "(0 \<le> t \<and> t \<le> 1) \<or> u = v"
  shows "0 < u * (1 - t) + v * t"
proof -
  consider "0 \<le> t \<and> t < 1" | "t = 1" | "u = v" using assms(3) by fastforce
  then show ?thesis
  proof cases
    case 1
    then have "0 < u * (1 - t)" and "0 \<le> v * t" using assms(1,2) by simp_all
    then show ?thesis by linarith
  next
    case 2
    then show ?thesis using assms(2) by simp
  next
    case 3
    have "u * (1 - t) + u * t = u" by (simp add: algebra_simps)
    then show ?thesis using assms(1) 3 by simp
  qed
qed

lemma trilinear_pos:
  fixes F :: "nat \<Rightarrow> nat \<Rightarrow> nat \<Rightarrow> real"
  assumes pos: "\<And>x y z. x \<in> {x0, x1} \<Longrightarrow> y \<in> {y0, y1} \<Longrightarrow> z \<in> {z0, z1} \<Longrightarrow> 0 < F x y z"
    and dx: "(0 \<le> dX \<and> dX \<le> 1) \<or> x0 = x1"
    and dy: "(0 \<le> dY \<and> dY \<le> 1) \<or> y0 = y1"
    and dz: "(0 \<le> dZ \<and> dZ \<le> 1) \<or> z0 = z1"
  shows "0 < (1 - dZ) * (F x0 y0 z0 * ((1 - dX) * (1 - dY))
              + F x1 y0 z0 * (dX * (1 - dY))
              + F x0 y1 z0 * (1 - dX) * dY)
              + dZ * (F x0 y0 z1 * ((1 - dX) * (1 - dY))
              + F x1 y0 z1 * (dX * (1 - dY))
              + F x0 y1 z1 * (1 - dX) * dY)
              + dX * dY * (F x1 y1 z0 * (1 - dZ)
              + F x1 y1 z1 * dZ)"
proof -
  define Lx where "Lx y z = F x0 y z * (1 - dX) + F x1 y z * dX" for y z
  define Ly where "Ly z = Lx y0 z * (1 - dY) + Lx y1 z * dY" for z
  have Lx_pos: "0 < Lx y z" if "y \<in> {y0, y1}" "z \<in> {z0, z1}" for y z
    unfolding Lx_def using dx that by (intro lin_pos pos) auto
  have Ly_pos: "0 < Ly z" if "z \<in> {z0, z1}" for z
    unfolding Ly_def using dy that by (intro lin_pos Lx_pos) auto
  have "0 < Ly z0 * (1 - dZ) + Ly z1 * dZ"
    using dz by (intro lin_pos Ly_pos) auto
  also have "Ly z0 * (1 - dZ) + Ly z1 * dZ =
        (1 - dZ) * (F x0 y0 z0 * ((1 - dX) * (1 - dY))
              + F x1 y0 z0 * (dX * (1 - dY))
              + F x0 y1 z0 * (1 - dX) * dY)
              + dZ * (F x0 y0 z1 * ((1 - dX) * (1 - dY))
              + F x1 y0 z1 * (dX * (1 - dY))
              + F x0 y1 z1 * (1 - dX) * dY)
              + dX * dY * (F x1 y1 z0 * (1 - dZ)
              + F x1 y1 z1 * dZ)"
    unfolding Ly_def Lx_def by (simp add: algebra_simps)
  finally show ?thesis .
qed

lemma axis_weight:
  assumes "size_t_defined s"
  shows "(0 \<le> s - real (to_size_t cv s) \<and> s - real (to_size_t cv s) \<le> 1) \<or>
         to_size_t cv s = to_size_t cv (ceil s)"
proof (cases "0 \<le> s")
  case True
  then have "trunc s = \<lfloor>s\<rfloor>" by (simp add: trunc_def)
  then have "real (to_size_t cv s) = of_int \<lfloor>s\<rfloor>"
    using assms by (simp add: to_size_t_def size_t_defined_def)
  then have "0 \<le> s - real (to_size_t cv s) \<and> s - real (to_size_t cv s) \<le> 1"
    by linarith
  then show ?thesis ..
next
  case False
  then have t: "trunc s = \<lceil>s\<rceil>" by (simp add: trunc_def)
  have "\<lceil>s\<rceil> \<le> 0" using False by (simp add: ceiling_le_iff)
  moreover have "0 \<le> \<lceil>s\<rceil>" using assms t by (simp add: size_t_defined_def)
  ultimately have c: "\<lceil>s\<rceil> = 0" by linarith
  have "to_size_t cv s = 0" using t c by (simp add: to_size_t_def)
  moreover have "to_size_t cv (ceil s) = 0"
    using c by (simp add: ceil_def to_size_t_def trunc_def)
  ultimately show ?thesis by simp
qed

lemma getValue_pos:
  assumes defined: "mTrilinearValue g \<longrightarrow>
      size_t_defined (vx (scaledPosition g position)) \<and>
      size_t_defined (vy (scaledPosition g position)) \<and>
      size_t_defined (vz (scaledPosition g position))"
    and pos: "\<forall>(x, y, z) \<in> samplePoints cv (mTrilinearValue g) (scaledPosition g position).
                0 < getVolumeGridValue acc (lattice g) x y z"
  shows "0 < getValue cv acc g position"
proof (cases "mTrilinearValue g")
  case False
  then show ?thesis using pos by (simp add: getValue_def samplePoints_def Let_def)
next
  case True
  let ?sp = "scaledPosition g position"
  from defined True have "def": "size_t_defined (vx ?sp)" "size_t_defined (vy ?sp)"
    "size_t_defined (vz ?sp)"
    by simp_all
  have p: "0 < getVolumeGridValue acc (lattice g) x y z"
    if "x \<in> {to_size_t cv (vx ?sp), to_size_t cv (ceil (vx ?sp))}"
       "y \<in> {to_size_t cv (vy ?sp), to_size_t cv (ceil (vy ?sp))}"
       "z \<in> {to_size_t cv (vz ?sp), to_size_t cv (ceil (vz ?sp))}" for x y z
  proof -
    have "(x, y, z) \<in> samplePoints cv (mTrilinearValue g) ?sp"
      using that True by (auto simp: samplePoints_def)
    with pos show ?thesis by blast
  qed
  have "0 < (1 - (vz ?sp - real (to_size_t cv (vz ?sp)))) * (getVolumeGridValue acc (lattice g) (to_size_t cv (vx ?sp)) (to_size_t cv (vy ?sp)) (to_size_t cv (vz ?sp)) * ((1 - (vx ?sp - real (to_size_t cv (vx ?sp)))) * (1 - (vy ?sp - real (to_size_t cv (vy ?sp)))))
              + getVolumeGridValue acc (lattice g) (to_size_t cv (ceil (vx ?sp))) (to_size_t cv (vy ?sp)) (to_size_t cv (vz ?sp)) * ((vx ?sp - real (to_size_t cv (vx ?sp))) * (1 - (vy ?sp - real (to_size_t cv (vy ?sp)))))
              + getVolumeGridValue acc (lattice g) (to_size_t cv (vx ?sp)) (to_size_t cv (ceil (vy ?sp))) (to_size_t cv (vz ?sp)) * (1 - (vx ?sp - real (to_size_t cv (vx ?sp)))) * (vy ?sp - real (to_size_t cv (vy ?sp))))
              + (vz ?sp - real (to_size_t cv (vz ?sp))) * (getVolumeGridValue acc (lattice g) (to_size_t cv (vx ?sp)) (to_size_t cv (vy ?sp)) (to_size_t cv (ceil (vz ?sp))) * ((1 - (vx ?sp - real (to_size_t cv (vx ?sp)))) * (1 - (vy ?sp - real (to_size_t cv (vy ?sp)))))
              + getVolumeGridValue acc (lattice g) (to_size_t cv (ceil (vx ?sp))) (to_size_t cv (vy ?sp)) (to_size_t cv (ceil (vz ?sp))) * ((vx ?sp - real (to_size_t cv (vx ?sp))) * (1 - (vy ?sp - real (to_size_t cv (vy ?sp)))))
              + getVolumeGridValue acc (lattice g) (to_size_t cv (vx ?sp)) (to_size_t cv (ceil (vy ?sp))) (to_size_t cv (ceil (vz ?sp))) * (1 - (vx ?sp - real (to_size_t cv (vx ?sp)))) * (vy ?sp - real (to_size_t cv (vy ?sp))))
              + (vx ?sp - real (to_size_t cv (vx ?sp))) * (vy ?sp - real (to_size_t cv (vy ?sp))) * (getVolumeGridValue acc (lattice g) (to_size_t cv (ceil (vx ?sp))) (to_size_t cv (ceil (vy ?sp))) (to_size_t cv (vz ?sp)) * (1 - (vz ?sp - real (to_size_t cv (vz ?sp))))
              + getVolumeGridValue acc (lattice g) (to_size_t cv (ceil (vx ?sp))) (to_size_t cv (ceil (vy ?sp))) (to_size_t cv (ceil (vz ?sp))) * (vz ?sp - real (to_size_t cv (vz ?sp))))"
    by (rule trilinear_pos[where F = "getVolumeGridValue acc (lattice g)", OF p
          axis_weight[OF "def"(1)] axis_weight[OF "def"(2)] axis_weight[OF "def"(3)]])
  then show ?thesis
    using True unfolding getValue_def Let_def by simp
qed

lemma gradient_as_value:
  "v4x (getValueAndGradient cv acc g position) =
     - getValue cv (component_accessors vx acc (mSobelGradient g))
         (g\<lparr>mTrilinearValue := mTrilinearGradient g\<rparr>) position"
  "v4y (getValueAndGradient cv acc g position) =
     - getValue cv (component_accessors vy acc (mSobelGradient g))
         (g\<lparr>mTrilinearValue := mTrilinearGradient g\<rparr>) position"
  "v4z (getValueAndGradient cv acc g position) =
     - getValue cv (component_accessors vz acc (mSobelGradient g))
         (g\<lparr>mTrilinearValue := mTrilinearGradient g\<rparr>) position"
  by (simp_all add: getValueAndGradient_def getValue_def Let_def scaledPosition_def
        component_accessors_def Vector3_add_def Vector3_mul_def Real_mul_Vector3_def)

text \<open>
  C5. Each gradient component that \<^const>\<open>getValueAndGradient\<close> returns is the negation of
  what value reconstruction yields on the gradients' components, with the
  gradient-interpolation flag in the place of the value-interpolation flag: the negation
  follows the trilinear blend of the eight corner gradients and the nearest-neighbour
  fetch alike. With the flag clear the result is the gradient at the nearest lattice point
  times -1. Consequently, when the gradient accessor reports a positive x-component at
  every lattice point visited (and, for the blend, the conversions of the scaled coordinates
  to \<^verbatim>\<open>size_t\<close> are defined), the x-component returned is negative.
\<close>

theorem getValueAndGradient_negated:
  "v4x (getValueAndGradient cv acc g position) =
     - getValue cv (component_accessors vx acc (mSobelGradient g))
         (g\<lparr>mTrilinearValue := mTrilinearGradient g\<rparr>) position \<and>
   v4y (getValueAndGradient cv acc g position) =
     - getValue cv (component_accessors vy acc (mSobelGradient g))
         (g\<lparr>mTrilinearValue := mTrilinearGradient g\<rparr>) position \<and>
   v4z (getValueAndGradient cv acc g position) =
     - getValue cv (component_accessors vz acc (mSobelGradient g))
         (g\<lparr>mTrilinearValue := mTrilinearGradient g\<rparr>) position \<and>
   (\<not> mTrilinearGradient g \<longrightarrow>
      \<lparr>vx = v4x (getValueAndGradient cv acc g position),
       vy = v4y (getValueAndGradient cv acc g position),
       vz = v4z (getValueAndGradient cv acc g position)\<rparr> =
      Vector3_mul
        (getGradient acc (lattice g) (mSobelGradient g)
           (to_size_t cv (Real_round (vx (scaledPosition g position) + 0.5)))
           (to_size_t cv (Real_round (vy (scaledPosition g position) + 0.5)))
           (to_size_t cv (Real_round (vz (scaledPosition g position) + 0.5)))) (- 1)) \<and>
   ((mTrilinearGradient g \<longrightarrow>
       size_t_defined (vx (scaledPosition g position)) \<and>
       size_t_defined (vy (scaledPosition g position)) \<and>
       size_t_defined (vz (scaledPosition g position))) \<and>
    (\<forall>(x, y, z) \<in> samplePoints cv (mTrilinearGradient g) (scaledPosition g position).
        0 < vx (getGradient acc (lattice g) (mSobelGradient g) x y z)) \<longrightarrow>
    v4x (getValueAndGradient cv acc g position) < 0)"
proof (intro conjI impI)
  assume "\<not> mTrilinearGradient g"
  then show "\<lparr>vx = v4x (getValueAndGradient cv acc g position),
       vy = v4y (getValueAndGradient cv acc g position),
       vz = v4z (getValueAndGradient cv acc g position)\<rparr> =
      Vector3_mul
        (getGradient acc (lattice g) (mSobelGradient g)
           (to_size_t cv (Real_round (vx (scaledPosition g position) + 0.5)))
           (to_size_t cv (Real_round (vy (scaledPosition g position) + 0.5)))
           (to_size_t cv (Real_round (vz (scaledPosition g position) + 0.5)))) (- 1)"
    by (simp add: getValueAndGradient_def Let_def Vector3_mul_def)
next
  let ?g = "g\<lparr>mTrilinearValue := mTrilinearGradient g\<rparr>"
  let ?acc = "component_accessors vx acc (mSobelGradient g)"
  assume h: "(mTrilinearGradient g \<longrightarrow>
       size_t_defined (vx (scaledPosition g position)) \<and>
       size_t_defined (vy (scaledPosition g position)) \<and>
       size_t_defined (vz (scaledPosition g position))) \<and>
    (\<forall>(x, y, z) \<in> samplePoints cv (mTrilinearGradient g) (scaledPosition g position).
        0 < vx (getGradient acc (lattice g) (mSobelGradient g) x y z))"
  have sp: "scaledPosition (g\<lparr>mTrilinearValue := b\<rparr>) position = scaledPosition g position"
    for b
    by (simp add: scaledPosition_def)
  have "0 < getValue cv ?acc ?g position"
    using h by (intro getValue_pos) (simp_all add: sp component_accessors_def)
  then show "v4x (getValueAndGradient cv acc g position) < 0"
    by (simp add: gradient_as_value(1))
qed (rule gradient_as_value)+

theorem getValueAndGradient_negated_witness:
  "v4x (getValueAndGradient example_conversions dense_accessors ramp_grid
          \<lparr>vx = 3 / 2, vy = 2, vz = 2\<rparr>) < 0 \<and>
   \<lparr>vx = v4x (getValueAndGradient example_conversions dense_accessors
            (ramp_grid\<lparr>mTrilinearGradient := False\<rparr>) \<lparr>vx = 3 / 2, vy = 2, vz = 2\<rparr>),
    vy = v4y (getValueAndGradient example_conversions dense_accessors
            (ramp_grid\<lparr>mTrilinearGradient := False\<rparr>) \<lparr>vx = 3 / 2, vy = 2, vz = 2\<rparr>),
    vz = v4z (getValueAndGradient example_conversions dense_accessors
            (ramp_grid\<lparr>mTrilinearGradient := False\<rparr>) \<lparr>vx = 3 / 2, vy = 2, vz = 2\<rparr>)\<rparr> =
   \<lparr>vx = - 1, vy = 0, vz = 0\<rparr>"
proof
  have sp: "scaledPosition ramp_grid \<lparr>vx = 3 / 2, vy = 2, vz = 2\<rparr> = \<lparr>vx = 3 / 2, vy = 2, vz = 2\<rparr>"
    by (simp add: scaledPosition_def ramp_grid_def scenario_grid_def)
  have d: "size_t_defined (3 / 2)" "size_t_defined 2"
    by (simp_all add: size_t_defined_def trunc_def SIZE_MAX_def)
  have p: "\<forall>(x, y, z) \<in> samplePoints example_conversions (mTrilinearGradient ramp_grid)
        (scaledPosition ramp_grid \<lparr>vx = 3 / 2, vy = 2, vz = 2\<rparr>).
      0 < vx (getGradient dense_accessors (lattice ramp_grid) (mSobelGradient ramp_grid) x y z)"
    by (simp add: dense_accessors_def ramp_grid_def)
  from getValueAndGradient_negated[of example_conversions dense_accessors ramp_grid
      "\<lparr>vx = 3 / 2, vy = 2, vz = 2\<rparr>"] d p
  show "v4x (getValueAndGradient example_conversions dense_accessors ramp_grid
          \<lparr>vx = 3 / 2, vy = 2, vz = 2\<rparr>) < 0"
    by (simp add: sp)
next
  let ?g = "ramp_grid\<lparr>mTrilinearGradient := False\<rparr>"
  have n: "\<not> mTrilinearGradient ?g" by simp
  from getValueAndGradient_negated[of example_conversions dense_accessors ?g
      "\<lparr>vx = 3 / 2, vy = 2, vz = 2\<rparr>"] n
  have "\<lparr>vx = v4x (getValueAndGradient example_conversions dense_accessors ?g
                \<lparr>vx = 3 / 2, vy = 2, vz = 2\<rparr>),
         vy = v4y (getValueAndGradient example_conversions dense_accessors ?g
                \<lparr>vx = 3 / 2, vy = 2, vz = 2\<rparr>),
         vz = v4z (getValueAndGradient example_conversions dense_accessors ?g
                \<lparr>vx = 3 / 2, vy = 2, vz = 2\<rparr>)\<rparr> =
      Vector3_mul
        (getGradient dense_accessors (lattice ?g) (mSobelGradient ?g)
           (to_size_t example_conversions
              (Real_round (vx (scaledPosition ?g \<lparr>vx = 3 / 2, vy = 2, vz = 2\<rparr>) + 0.5)))
           (to_size_t example_conversions
              (Real_round (vy (scaledPosition ?g \<lparr>vx = 3 / 2, vy = 2, vz = 2\<rparr>) + 0.5)))
           (to_size_t example_conversions
              (Real_round (vz (scaledPosition ?g \<lparr>vx = 3 / 2, vy = 2, vz = 2\<rparr>) + 0.5)))) (- 1)"
    by blast
  also have "\<dots> = \<lparr>vx = - 1, vy = 0, vz = 0\<rparr>"
    by (simp add: dense_accessors_def ramp_grid_def scenario_grid_def Vector3_mul_def)
  finally show "\<lparr>vx = v4x (getValueAndGradient example_conversions dense_accessors ?g
                \<lparr>vx = 3 / 2, vy = 2, vz = 2\<rparr>),
         vy = v4y (getValueAndGradient example_conversions dense_accessors ?g
                \<lparr>vx = 3 / 2, vy = 2, vz = 2\<rparr>),
         vz = v4z (getValueAndGradient example_conversions dense_accessors ?g
                \<lparr>vx = 3 / 2, vy = 2, vz = 2\<rparr>)\<rparr> = \<lparr>vx = - 1, vy = 0, vz = 0\<rparr>" .
qed

section \<open>The two flags\<close>

lemma getValue_spec:
  "getValue cv acc g position =
     (if mTrilinearValue g
      then spec_trilinear cv (getVolumeGridValue acc (lattice g)) (scaledPosition g position)
      else spec_nearest cv (getVolumeGridValue acc (lattice g)) (scaledPosition g position))"
  by (simp add: getValue_def spec_trilinear_def spec_nearest_def lerp_def Let_def algebra_simps)

text \<open>
  C9. The fourth component of \<^const>\<open>getValueAndGradient\<close> is \<^const>\<open>getValue\<close> at the same
  position. The value is the trilinear reconstruction of the samples when the
  value-interpolation flag is set and the nearest sample when it is clear, whatever the
  gradient-interpolation flag is; each gradient component is minus the trilinear
  reconstruction of that component of the gradients when the gradient-interpolation flag
  is set and minus that component of the nearest gradient when it is clear, whatever the
  value-interpolation flag is. Both are taken at the same scaled position, and every
  combination of the two flags is served.
\<close>

theorem getValueAndGradient_flags:
  "v4w (getValueAndGradient cv acc g position) = getValue cv acc g position \<and>
   getValue cv acc g position =
     (if mTrilinearValue g
      then spec_trilinear cv (getVolumeGridValue acc (lattice g)) (scaledPosition g position)
      else spec_nearest cv (getVolumeGridValue acc (lattice g)) (scaledPosition g position)) \<and>
   v4x (getValueAndGradient cv acc g position) =
     - (if mTrilinearGradient g
        then spec_trilinear cv (\<lambda>x y z. vx (getGradient acc (lattice g) (mSobelGradient g) x y z))
               (scaledPosition g position)
        else spec_nearest cv (\<lambda>x y z. vx (getGradient acc (lattice g) (mSobelGradient g) x y z))
               (scaledPosition g position)) \<and>
   v4y (getValueAndGradient cv acc g position) =
     - (if mTrilinearGradient g
        then spec_trilinear cv (\<lambda>x y z. vy (getGradient acc (lattice g) (mSobelGradient g) x y z))
               (scaledPosition g position)
        else spec_nearest cv (\<lambda>x y z. vy (getGradient acc (lattice g) (mSobelGradient g) x y z))
               (scaledPosition g position)) \<and>
   v4z (getValueAndGradient cv acc g position) =
     - (if mTrilinearGradient g
        then spec_trilinear cv (\<lambda>x y z. vz (getGradient acc (lattice g) (mSobelGradient g) x y z))
               (scaledPosition g position)
        else spec_nearest cv (\<lambda>x y z. vz (getGradient acc (lattice g) (mSobelGradient g) x y z))
               (scaledPosition g position)) \<and>
   v4x (getValueAndGradient cv acc (g\<lparr>mTrilinearValue := b\<rparr>) position) =
     v4x (getValueAndGradient cv acc g position) \<and>
   v4y (getValueAndGradient cv acc (g\<lparr>mTrilinearValue := b\<rparr>) position) =
     v4y (getValueAndGradient cv acc g position) \<and>
   v4z (getValueAndGradient cv acc (g\<lparr>mTrilinearValue := b\<rparr>) position) =
     v4z (getValueAndGradient cv acc g position) \<and>
   getValue cv acc (g\<lparr>mTrilinearGradient := b\<rparr>) position = getValue cv acc g position"
proof (intro conjI)
  show "getValue cv acc g position =
     (if mTrilinearValue g
      then spec_trilinear cv (getVolumeGridValue acc (lattice g)) (scaledPosition g position)
      else spec_nearest cv (getVolumeGridValue acc (lattice g)) (scaledPosition g position))"
    by (rule getValue_spec)
  let ?g = "g\<lparr>mTrilinearValue := mTrilinearGradient g\<rparr>"
  have sp: "scaledPosition ?g position = scaledPosition g position"
    by (simp add: scaledPosition_def)
  show "v4x (getValueAndGradient cv acc g position) =
     - (if mTrilinearGradient g
        then spec_trilinear cv (\<lambda>x y z. vx (getGradient acc (lattice g) (mSobelGradient g) x y z))
               (scaledPosition g position)
        else spec_nearest cv (\<lambda>x y z. vx (getGradient acc (lattice g) (mSobelGradient g) x y z))
               (scaledPosition g position))"
    unfolding gradient_as_value(1) getValue_spec[of cv _ ?g] sp
    by (simp add: component_accessors_def)
  show "v4y (getValueAndGradient cv acc g position) =
     - (if mTrilinearGradient g
        then spec_trilinear cv (\<lambda>x y z. vy (getGradient acc (lattice g) (mSobelGradient g) x y z))
               (scaledPosition g position)
        else spec_nearest cv (\<lambda>x y z. vy (getGradient acc (lattice g) (mSobelGradient g) x y z))
               (scaledPosition g position))"
    unfolding gradient_as_value(2) getValue_spec[of cv _ ?g] sp
    by (simp add: component_accessors_def)
  show "v4z (getValueAndGradient cv acc g position) =
     - (if mTrilinearGradient g
        then spec_trilinear cv (\<lambda>x y z. vz (getGradient acc (lattice g) (mSobelGradient g) x y z))
               (scaledPosition g position)
        else spec_nearest cv (\<lambda>x y z. vz (getGradient acc (lattice g) (mSobelGradient g) x y z))
               (scaledPosition g position))"
    unfolding gradient_as_value(3) getValue_spec[of cv _ ?g] sp
    by (simp add: component_accessors_def)
qed (simp_all add: getValueAndGradient_def getValue_def Let_def scaledPosition_def)

text \<open>
  On the concrete grid at (1.5, 2, 2): with the gradient looked up at the nearest point and
  the value interpolated the value is 3, halfway between the samples 1 and 5; with the
  gradient interpolated and the value looked up at the nearest point it is the sample 5.
\<close>

theorem getValueAndGradient_flags_witness:
  "v4w (getValueAndGradient example_conversions dense_accessors
          (scenario_grid\<lparr>mTrilinearGradient := False\<rparr>) \<lparr>vx = 3 / 2, vy = 2, vz = 2\<rparr>) = 3 \<and>
   v4w (getValueAndGradient example_conversions dense_accessors
          (scenario_grid\<lparr>mTrilinearValue := False\<rparr>) \<lparr>vx = 3 / 2, vy = 2, vz = 2\<rparr>) = 5"
proof
  let ?p = "\<lparr>vx = 3 / 2, vy = 2, vz = 2\<rparr>"
  have sp: "scaledPosition (scenario_grid\<lparr>mTrilinearGradient := False\<rparr>) ?p = ?p"
    "scaledPosition (scenario_grid\<lparr>mTrilinearValue := False\<rparr>) ?p = ?p"
    by (simp_all add: scaledPosition_def scenario_grid_def)
  have t: "mTrilinearValue (scenario_grid\<lparr>mTrilinearGradient := False\<rparr>)"
    "\<not> mTrilinearValue (scenario_grid\<lparr>mTrilinearValue := False\<rparr>)"
    by (simp_all add: scenario_grid_def)
  from getValueAndGradient_flags[of example_conversions dense_accessors
      "scenario_grid\<lparr>mTrilinearGradient := False\<rparr>" ?p] t(1)
  have "v4w (getValueAndGradient example_conversions dense_accessors
          (scenario_grid\<lparr>mTrilinearGradient := False\<rparr>) ?p) =
        spec_trilinear example_conversions
          (getVolumeGridValue dense_accessors (lattice (scenario_grid\<lparr>mTrilinearGradient := False\<rparr>)))
          ?p"
    by (simp add: sp)
  also have "\<dots> = 3"
    by (simp add: spec_trilinear_def lerp_def Let_def scenario_grid_def dense_accessors_def
          to_size_t_def trunc_def ceil_def SIZE_MAX_def)
  finally show "v4w (getValueAndGradient example_conversions dense_accessors
          (scenario_grid\<lparr>mTrilinearGradient := False\<rparr>) ?p) = 3" .
  from getValueAndGradient_flags[of example_conversions dense_accessors
      "scenario_grid\<lparr>mTrilinearValue := False\<rparr>" ?p] t(2)
  have "v4w (getValueAndGradient example_conversions dense_accessors
          (scenario_grid\<lparr>mTrilinearValue := False\<rparr>) ?p) =
        spec_nearest example_conversions
          (getVolumeGridValue dense_accessors (lattice (scenario_grid\<lparr>mTrilinearValue := False\<rparr>)))
          ?p"
    by (simp add: sp)
  also have "\<dots> = 5"
    by (simp add: spec_nearest_def scenario_grid_def dense_accessors_def
          to_size_t_def trunc_def SIZE_MAX_def)
  finally show "v4w (getValueAndGradient example_conversions dense_accessors
          (scenario_grid\<lparr>mTrilinearValue := False\<rparr>) ?p) = 5" .
qed

section \<open>Bounds and intersection\<close>

lemma axis_entry_le:
  assumes "lo \<le> p + d * t0" and "p + d * t0 \<le> hi" and "0 \<le> t0"
  shows "axis_entry p d lo hi \<le> t0"
proof -
  consider "d = 0" | "0 < d" | "d < 0" by linarith
  then show ?thesis
  proof cases
    case 1
    then show ?thesis using assms(3) by (simp add: axis_entry_def)
  next
    case 2
    then have "(lo - p) / d \<le> t0" using assms(1) by (simp add: pos_divide_le_eq mult.commute)
    then show ?thesis using 2 by (simp add: axis_entry_def min_le_iff_disj)
  next
    case 3
    then have "(hi - p) / d \<le> t0" using assms(2) by (simp add: neg_divide_le_eq mult.commute)
    then show ?thesis using 3 by (simp add: axis_entry_def min_le_iff_disj)
  qed
qed

lemma axis_inside:
  assumes "lo \<le> p + d * t0" and "p + d * t0 \<le> hi"
    and "axis_entry p d lo hi \<le> t" and "t \<le> t0"
  shows "lo \<le> p + d * t \<and> p + d * t \<le> hi"
proof -
  consider "d = 0" | "0 < d" | "d < 0" by linarith
  then show ?thesis
  proof cases
    case 1
    then show ?thesis using assms(1,2) by simp
  next
    case 2
    have "lo \<le> hi" using assms(1,2) by linarith
    then have "(lo - p) / d \<le> (hi - p) / d" using 2 by (simp add: divide_right_mono)
    then have "(lo - p) / d \<le> t" using assms(3) 2 by (simp add: axis_entry_def)
    then have "lo - p \<le> d * t" using 2 by (simp add: pos_divide_le_eq mult.commute)
    moreover have "d * t \<le> d * t0" using 2 assms(4) by simp
    ultimately show ?thesis using assms(2) by linarith
  next
    case 3
    have "lo \<le> hi" using assms(1,2) by linarith
    then have "(hi - p) / d \<le> (lo - p) / d" using 3 by (simp add: divide_right_mono_neg)
    then have "(hi - p) / d \<le> t" using assms(3) 3 by (simp add: axis_entry_def)
    then have "d * t \<le> hi - p" using 3 by (simp add: neg_divide_le_eq mult.commute)
    moreover have "d * t0 \<le> d * t" using 3 assms(4) by (simp add: mult_left_mono_neg)
    ultimately show ?thesis using assms(1) by linarith
  qed
qed

lemma axis_entry_candidate:
  "axis_entry p d lo hi = 0 \<or>
   (d \<noteq> 0 \<and> (axis_entry p d lo hi = (lo - p) / d \<or> axis_entry p d lo hi = (hi - p) / d))"
  by (auto simp: axis_entry_def min_def)

lemma entry_distance_candidate: "entry_distance ray box \<in> set (0 # face_distances ray box)"
proof -
  let ?ex = "axis_entry (vx (mOrigin ray)) (vx (mDirection ray)) (vx (mMinimum box)) (vx (mMaximum box))"
  let ?ey = "axis_entry (vy (mOrigin ray)) (vy (mDirection ray)) (vy (mMinimum box)) (vy (mMaximum box))"
  let ?ez = "axis_entry (vz (mOrigin ray)) (vz (mDirection ray)) (vz (mMinimum box)) (vz (mMaximum box))"
  have x: "?ex \<in> set (0 # face_distances ray box)"
    using axis_entry_candidate[of "vx (mOrigin ray)" "vx (mDirection ray)" "vx (mMinimum box)" "vx (mMaximum box)"]
    by (auto simp: face_distances_def)
  have y: "?ey \<in> set (0 # face_distances ray box)"
    using axis_entry_candidate[of "vy (mOrigin ray)" "vy (mDirection ray)" "vy (mMinimum box)" "vy (mMaximum box)"]
    by (auto simp: face_distances_def)
  have z: "?ez \<in> set (0 # face_distances ray box)"
    using axis_entry_candidate[of "vz (mOrigin ray)" "vz (mDirection ray)" "vz (mMinimum box)" "vz (mMaximum box)"]
    by (auto simp: face_distances_def)
  have "entry_distance ray box \<in> {0, ?ex, ?ey, ?ez}"
    by (simp add: entry_distance_def max_def)
  then show ?thesis using x y z by auto
qed

lemma getPoint_coords:
  "vx (getPoint ray t) = vx (mOrigin ray) + vx (mDirection ray) * t"
  "vy (getPoint ray t) = vy (mOrigin ray) + vy (mDirection ray) * t"
  "vz (getPoint ray t) = vz (mOrigin ray) + vz (mDirection ray) * t"
  by (simp_all add: getPoint_def Vector3_add_def Vector3_mul_def)

lemma entry_distance_first:
  assumes "0 \<le> t0" and "AxisAlignedBox_intersects box (getPoint ray t0)"
  shows "0 \<le> entry_distance ray box \<and> entry_distance ray box \<le> t0 \<and>
         AxisAlignedBox_intersects box (getPoint ray (entry_distance ray box))"
proof -
  let ?ex = "axis_entry (vx (mOrigin ray)) (vx (mDirection ray)) (vx (mMinimum box)) (vx (mMaximum box))"
  let ?ey = "axis_entry (vy (mOrigin ray)) (vy (mDirection ray)) (vy (mMinimum box)) (vy (mMaximum box))"
  let ?ez = "axis_entry (vz (mOrigin ray)) (vz (mDirection ray)) (vz (mMinimum box)) (vz (mMaximum box))"
  let ?t = "entry_distance ray box"
  from assms(2) have in0:
    "vx (mMinimum box) \<le> vx (mOrigin ray) + vx (mDirection ray) * t0"
    "vx (mOrigin ray) + vx (mDirection ray) * t0 \<le> vx (mMaximum box)"
    "vy (mMinimum box) \<le> vy (mOrigin ray) + vy (mDirection ray) * t0"
    "vy (mOrigin ray) + vy (mDirection ray) * t0 \<le> vy (mMaximum box)"
    "vz (mMinimum box) \<le> vz (mOrigin ray) + vz (mDirection ray) * t0"
    "vz (mOrigin ray) + vz (mDirection ray) * t0 \<le> vz (mMaximum box)"
    by (simp_all add: AxisAlignedBox_intersects_def getPoint_coords)
  have ex: "?ex \<le> t0" by (rule axis_entry_le[OF in0(1,2) assms(1)])
  have ey: "?ey \<le> t0" by (rule axis_entry_le[OF in0(3,4) assms(1)])
  have ez: "?ez \<le> t0" by (rule axis_entry_le[OF in0(5,6) assms(1)])
  have le: "?t \<le> t0" using ex ey ez assms(1) by (simp add: entry_distance_def)
  have ge: "0 \<le> ?t" "?ex \<le> ?t" "?ey \<le> ?t" "?ez \<le> ?t"
    by (simp_all add: entry_distance_def)
  have "AxisAlignedBox_intersects box (getPoint ray ?t)"
    unfolding AxisAlignedBox_intersects_def getPoint_coords
    using axis_inside[OF in0(1,2) ge(2) le] axis_inside[OF in0(3,4) ge(3) le]
      axis_inside[OF in0(5,6) ge(4) le]
    by blast
  with ge(1) le show ?thesis by blast
qed

lemma fold_min_le: "fold min ts (t::real) \<le> t"
proof (induction ts arbitrary: t)
  case Nil
  then show ?case by simp
next
  case (Cons a ts)
  have "fold min ts (min a t) \<le> min a t" by (rule Cons.IH)
  also have "min a t \<le> t" by simp
  finally show ?case by simp
qed

lemma fold_min_le_member: "s \<in> set ts \<Longrightarrow> fold min ts (t::real) \<le> s"
proof (induction ts arbitrary: t)
  case Nil
  then show ?case by simp
next
  case (Cons a ts)
  show ?case
  proof (cases "s = a")
    case True
    have "fold min ts (min a t) \<le> min a t" by (rule fold_min_le)
    then show ?thesis using True by simp
  next
    case False
    with Cons show ?thesis by simp
  qed
qed

lemma fold_min_member: "fold min ts (t::real) \<in> set (t # ts)"
proof (induction ts arbitrary: t)
  case Nil
  then show ?case by simp
next
  case (Cons a ts)
  have "fold min ts (min a t) \<in> set (min a t # ts)" by (rule Cons.IH)
  moreover have "min a t = a \<or> min a t = t" by (simp add: min_def)
  ultimately show ?case by auto
qed

text \<open>
  The ray-box test of this theory is correct: it reports a hit exactly when some point of
  the ray lies in the box, and the distance it reports is the ray parameter of the first
  such point.
\<close>

lemma Ray_intersects_correct:
  "(fst (Ray_intersects ray box) \<longleftrightarrow> (\<exists>t\<ge>0. AxisAlignedBox_intersects box (getPoint ray t))) \<and>
   (fst (Ray_intersects ray box) \<longrightarrow>
      0 \<le> snd (Ray_intersects ray box) \<and>
      AxisAlignedBox_intersects box (getPoint ray (snd (Ray_intersects ray box))) \<and>
      (\<forall>t\<ge>0. AxisAlignedBox_intersects box (getPoint ray t) \<longrightarrow>
         snd (Ray_intersects ray box) \<le> t))"
proof -
  let ?P = "\<lambda>t. 0 \<le> t \<and> AxisAlignedBox_intersects box (getPoint ray t)"
  let ?hits = "filter ?P (0 # face_distances ray box)"
  have complete: "entry_distance ray box \<in> set ?hits \<and> entry_distance ray box \<le> t"
    if "0 \<le> t" "AxisAlignedBox_intersects box (getPoint ray t)" for t
  proof -
    have "entry_distance ray box \<in> set (0 # face_distances ray box)"
      by (rule entry_distance_candidate)
    moreover have "?P (entry_distance ray box)" "entry_distance ray box \<le> t"
      using entry_distance_first[OF that] by blast+
    ultimately show ?thesis unfolding set_filter by blast
  qed
  have hit_iff: "fst (Ray_intersects ray box) \<longleftrightarrow> ?hits \<noteq> []"
    by (simp add: Ray_intersects_def split: list.splits)
  have a: "fst (Ray_intersects ray box) \<longleftrightarrow> (\<exists>t\<ge>0. AxisAlignedBox_intersects box (getPoint ray t))"
  proof
    assume "fst (Ray_intersects ray box)"
    then obtain t where "t \<in> set ?hits" unfolding hit_iff by (meson last_in_set)
    then have "?P t" by (simp only: set_filter mem_Collect_eq)
    then show "\<exists>t\<ge>0. AxisAlignedBox_intersects box (getPoint ray t)" by blast
  next
    assume "\<exists>t\<ge>0. AxisAlignedBox_intersects box (getPoint ray t)"
    then obtain t where "0 \<le> t" "AxisAlignedBox_intersects box (getPoint ray t)" by blast
    from complete[OF this] have "entry_distance ray box \<in> set ?hits" ..
    then have "?hits \<noteq> []" by (metis empty_iff empty_set)
    then show "fst (Ray_intersects ray box)" unfolding hit_iff .
  qed
  have b: "0 \<le> snd (Ray_intersects ray box) \<and>
      AxisAlignedBox_intersects box (getPoint ray (snd (Ray_intersects ray box))) \<and>
      (\<forall>t\<ge>0. AxisAlignedBox_intersects box (getPoint ray t) \<longrightarrow>
         snd (Ray_intersects ray box) \<le> t)" if "fst (Ray_intersects ray box)"
  proof -
    from that obtain h hs where hs: "?hits = h # hs"
      unfolding hit_iff by (cases ?hits) auto
    then have d: "snd (Ray_intersects ray box) = fold min hs h"
      by (simp add: Ray_intersects_def)
    have "fold min hs h \<in> set ?hits" unfolding hs by (rule fold_min_member)
    then have "?P (fold min hs h)" by (simp only: set_filter mem_Collect_eq)
    moreover have "fold min hs h \<le> t"
      if t: "0 \<le> t" "AxisAlignedBox_intersects box (getPoint ray t)" for t
    proof -
      from complete[OF t] have m: "entry_distance ray box \<in> set (h # hs)"
        and le: "entry_distance ray box \<le> t" unfolding hs by simp_all
      have "fold min hs h \<le> entry_distance ray box"
        using m fold_min_le[of hs h] fold_min_le_member[of "entry_distance ray box" hs h]
        by auto
      with le show ?thesis by linarith
    qed
    ultimately show ?thesis unfolding d by blast
  qed
  from a b show ?thesis by blast
qed

lemma gridBox_intersects:
  "AxisAlignedBox_intersects (gridBox g) p \<longleftrightarrow>
     0 \<le> vx p \<and> vx p \<le> of_int (mWidth g) \<and>
     0 \<le> vy p \<and> vy p \<le> of_int (mHeight g) \<and>
     0 \<le> vz p \<and> vz p \<le> of_int (mDepth g)"
  by (simp add: AxisAlignedBox_intersects_def gridBox_def AxisAlignedBox_make_def)

lemma getIntersectionEnd_reverseRay:
  "getIntersectionEnd intersects g ray maxDistance =
     (if fst (intersects (reverseRay g ray) (gridBox g)) then
        Vector3_add (mOrigin (reverseRay g ray))
          (Vector3_mul (mDirection (reverseRay g ray))
             (snd (intersects (reverseRay g ray) (gridBox g))))
      else Vector3_add (mOrigin ray) (Vector3_mul (normalisedCopy (mDirection ray)) maxDistance))"
  by (simp add: getIntersectionEnd_def reverseRay_def Let_def)

lemma Ray_intersects_sound: "sound_test Ray_intersects"
  unfolding sound_test_def
proof (intro allI impI)
  fix ray box
  assume "fst (Ray_intersects ray box)"
  then obtain t ts where
    "filter (\<lambda>t. 0 \<le> t \<and> AxisAlignedBox_intersects box (getPoint ray t))
       (0 # face_distances ray box) = t # ts"
    unfolding Ray_intersects_def by (auto split: list.splits)
  then have "0 \<le> t \<and> AxisAlignedBox_intersects box (getPoint ray t)"
    by (blast dest: filter_eq_ConsD)
  then show "\<exists>t\<ge>0. AxisAlignedBox_intersects box (getPoint ray t)" by blast
qed

lemma normalisedCopy_multiple: "\<exists>c. normalisedCopy v = Vector3_mul v c"
proof (cases "0 < Vector3_length v")
  case True
  then show ?thesis by (auto simp: normalisedCopy_def)
next
  case False
  have "v = Vector3_mul v 1" by (simp add: Vector3_mul_def)
  with False show ?thesis unfolding normalisedCopy_def by (metis)
qed

lemma reverseRay_on_line: "\<exists>s. getPoint (reverseRay g ray) t = getPoint ray s"
proof -
  obtain c where c: "normalisedCopy (mDirection ray) = Vector3_mul (mDirection ray) c"
    using normalisedCopy_multiple by blast
  let ?L = "Vector3_length (getSize (gridBox g))"
  have "getPoint (reverseRay g ray) t = getPoint ray (c * ?L - c * t)"
    by (simp add: getPoint_def reverseRay_def Let_def c Vector3_add_def Vector3_mul_def
          Real_mul_Vector3_def algebra_simps)
  then show ?thesis ..
qed

lemma box_grid_box: "gridBox box_grid = AxisAlignedBox_make 0 0 0 2 3 6"
  by (simp add: gridBox_def box_grid_def scenario_grid_def)

lemma box_grid_diagonal: "Vector3_length (getSize (gridBox box_grid)) = 7"
  by (simp add: box_grid_box AxisAlignedBox_make_def getSize_def Vector3_sub_def
        Vector3_length_def)

lemma away_ray_direction: "normalisedCopy (mDirection away_ray) = \<lparr>vx = - 1, vy = 0, vz = 0\<rparr>"
  by (simp add: normalisedCopy_def away_ray_def Vector3_length_def Vector3_mul_def)

lemma away_ray_misses: "Ray_intersects away_ray (gridBox box_grid) = (False, 0)"
  by (simp add: Ray_intersects_def face_distances_def away_ray_def box_grid_box
        AxisAlignedBox_make_def AxisAlignedBox_intersects_def getPoint_def Vector3_add_def
        Vector3_mul_def)

lemma away_ray_reverse:
  "reverseRay box_grid away_ray =
     \<lparr>mOrigin = \<lparr>vx = - 8, vy = 1, vz = 1\<rparr>, mDirection = \<lparr>vx = 1, vy = 0, vz = 0\<rparr>\<rparr>"
  by (simp add: reverseRay_def Let_def away_ray_direction box_grid_diagonal)
     (simp add: away_ray_def Vector3_add_def Vector3_mul_def Real_mul_Vector3_def)

lemma away_ray_reverse_hits:
  "Ray_intersects (reverseRay box_grid away_ray) (gridBox box_grid) = (True, 8)"
  by (simp add: away_ray_reverse)
     (simp add: Ray_intersects_def face_distances_def box_grid_box
        AxisAlignedBox_make_def AxisAlignedBox_intersects_def getPoint_def Vector3_add_def
        Vector3_mul_def)

lemma toward_ray_hits: "Ray_intersects toward_ray (gridBox box_grid) = (True, 1)"
  by (simp add: Ray_intersects_def face_distances_def toward_ray_def box_grid_box
        AxisAlignedBox_make_def AxisAlignedBox_intersects_def getPoint_def Vector3_add_def
        Vector3_mul_def)

lemma toward_ray_direction:
  "normalisedCopy (mDirection toward_ray) = \<lparr>vx = 1, vy = 0, vz = 0\<rparr>"
  by (simp add: normalisedCopy_def toward_ray_def Vector3_length_def Vector3_mul_def)

lemma beside_ray_direction:
  "normalisedCopy (mDirection beside_ray) = \<lparr>vx = 1, vy = 0, vz = 0\<rparr>"
  by (simp add: normalisedCopy_def beside_ray_def Vector3_length_def Vector3_mul_def)

lemma beside_ray_reverse:
  "reverseRay box_grid beside_ray =
     \<lparr>mOrigin = \<lparr>vx = 6, vy = 5, vz = 1\<rparr>, mDirection = \<lparr>vx = - 1, vy = 0, vz = 0\<rparr>\<rparr>"
  by (simp add: reverseRay_def Let_def beside_ray_direction box_grid_diagonal)
     (simp add: beside_ray_def Vector3_add_def Vector3_mul_def Real_mul_Vector3_def)

lemma beside_ray_line_misses:
  "\<forall>t. \<not> AxisAlignedBox_intersects (gridBox box_grid) (getPoint beside_ray t)"
  by (simp add: box_grid_box AxisAlignedBox_make_def AxisAlignedBox_intersects_def
        getPoint_def beside_ray_def Vector3_add_def Vector3_mul_def)

lemma away_ray_no_point:
  "\<forall>t\<ge>0. \<not> AxisAlignedBox_intersects (gridBox box_grid) (getPoint away_ray t)"
  by (simp add: box_grid_box AxisAlignedBox_make_def AxisAlignedBox_intersects_def
        getPoint_def away_ray_def Vector3_add_def Vector3_mul_def)

lemma away_ray_reverse_first_point:
  "AxisAlignedBox_intersects (gridBox box_grid) (getPoint (reverseRay box_grid away_ray) 8) \<and>
   (\<forall>t<8. \<not> AxisAlignedBox_intersects (gridBox box_grid)
              (getPoint (reverseRay box_grid away_ray) t))"
  by (simp add: away_ray_reverse box_grid_box AxisAlignedBox_make_def
        AxisAlignedBox_intersects_def getPoint_def Vector3_add_def Vector3_mul_def)

text \<open>
  C6. For every ray-box test, every ray and every maximal distance,
  \<^const>\<open>getIntersectionStart\<close> returns the origin of the ray when the origin lies in the box
  \<open>[0, mWidth] \<times> [0, mHeight] \<times> [0, mDepth]\<close>, returns the origin also when the test reports
  no hit, and in the remaining case (origin outside, test reports a hit) returns the origin
  plus the normalised direction times the distance reported.
\<close>

theorem getIntersectionStart_cases:
  "(0 \<le> vx (mOrigin ray) \<and> vx (mOrigin ray) \<le> of_int (mWidth g) \<and>
    0 \<le> vy (mOrigin ray) \<and> vy (mOrigin ray) \<le> of_int (mHeight g) \<and>
    0 \<le> vz (mOrigin ray) \<and> vz (mOrigin ray) \<le> of_int (mDepth g) \<longrightarrow>
      getIntersectionStart intersects g ray maxDistance = mOrigin ray) \<and>
   (\<not> fst (intersects ray (gridBox g)) \<longrightarrow>
      getIntersectionStart intersects g ray maxDistance = mOrigin ray) \<and>
   (\<not> AxisAlignedBox_intersects (gridBox g) (mOrigin ray) \<and> fst (intersects ray (gridBox g)) \<longrightarrow>
      getIntersectionStart intersects g ray maxDistance =
        Vector3_add (mOrigin ray)
          (Vector3_mul (normalisedCopy (mDirection ray)) (snd (intersects ray (gridBox g)))))"
  by (simp add: getIntersectionStart_def Let_def gridBox_intersects)

theorem getIntersectionStart_cases_witness:
  "getIntersectionStart Ray_intersects box_grid inside_ray 10 = \<lparr>vx = 1, vy = 1, vz = 1\<rparr> \<and>
   getIntersectionStart Ray_intersects box_grid away_ray 10 = \<lparr>vx = - 1, vy = 1, vz = 1\<rparr> \<and>
   getIntersectionStart Ray_intersects box_grid toward_ray 10 = \<lparr>vx = 0, vy = 1, vz = 1\<rparr>"
proof (intro conjI)
  have "0 \<le> vx (mOrigin inside_ray) \<and> vx (mOrigin inside_ray) \<le> of_int (mWidth box_grid) \<and>
    0 \<le> vy (mOrigin inside_ray) \<and> vy (mOrigin inside_ray) \<le> of_int (mHeight box_grid) \<and>
    0 \<le> vz (mOrigin inside_ray) \<and> vz (mOrigin inside_ray) \<le> of_int (mDepth box_grid)"
    by (simp add: inside_ray_def box_grid_def scenario_grid_def)
  with getIntersectionStart_cases[of inside_ray box_grid Ray_intersects 10]
  show "getIntersectionStart Ray_intersects box_grid inside_ray 10 = \<lparr>vx = 1, vy = 1, vz = 1\<rparr>"
    by (simp add: inside_ray_def)
next
  have "\<not> fst (Ray_intersects away_ray (gridBox box_grid))"
    by (simp add: away_ray_misses)
  with getIntersectionStart_cases[of away_ray box_grid Ray_intersects 10]
  show "getIntersectionStart Ray_intersects box_grid away_ray 10 = \<lparr>vx = - 1, vy = 1, vz = 1\<rparr>"
    by (simp add: away_ray_def)
next
  have "\<not> AxisAlignedBox_intersects (gridBox box_grid) (mOrigin toward_ray) \<and>
      fst (Ray_intersects toward_ray (gridBox box_grid))"
    by (simp add: toward_ray_hits) (simp add: gridBox_intersects toward_ray_def)
  with getIntersectionStart_cases[of toward_ray box_grid Ray_intersects 10]
  have "getIntersectionStart Ray_intersects box_grid toward_ray 10 =
      Vector3_add (mOrigin toward_ray)
        (Vector3_mul (normalisedCopy (mDirection toward_ray))
           (snd (Ray_intersects toward_ray (gridBox box_grid))))"
    by blast
  then show "getIntersectionStart Ray_intersects box_grid toward_ray 10 =
      \<lparr>vx = 0, vy = 1, vz = 1\<rparr>"
    by (simp add: toward_ray_hits toward_ray_direction)
      (simp add: toward_ray_def Vector3_add_def Vector3_mul_def)
qed

text \<open>
  C7, as the code has it. For every ray-box test, every ray and every maximal distance:
  when the test reports no hit for the reverse ray, \<^const>\<open>getIntersectionEnd\<close> returns the
  origin plus the normalised direction times the maximal distance. In particular it does so
  when the test is sound and the whole line through the ray misses the box.
\<close>

theorem getIntersectionEnd_fallback:
  "(\<not> fst (intersects (reverseRay g ray) (gridBox g)) \<longrightarrow>
      getIntersectionEnd intersects g ray maxDistance =
        Vector3_add (mOrigin ray) (Vector3_mul (normalisedCopy (mDirection ray)) maxDistance)) \<and>
   (sound_test intersects \<and> (\<forall>t. \<not> AxisAlignedBox_intersects (gridBox g) (getPoint ray t)) \<longrightarrow>
      getIntersectionEnd intersects g ray maxDistance =
        Vector3_add (mOrigin ray) (Vector3_mul (normalisedCopy (mDirection ray)) maxDistance))"
proof (intro conjI impI)
  assume "\<not> fst (intersects (reverseRay g ray) (gridBox g))"
  then show "getIntersectionEnd intersects g ray maxDistance =
        Vector3_add (mOrigin ray) (Vector3_mul (normalisedCopy (mDirection ray)) maxDistance)"
    by (simp add: getIntersectionEnd_reverseRay)
next
  assume h: "sound_test intersects \<and>
    (\<forall>t. \<not> AxisAlignedBox_intersects (gridBox g) (getPoint ray t))"
  have "\<not> fst (intersects (reverseRay g ray) (gridBox g))"
  proof
    assume "fst (intersects (reverseRay g ray) (gridBox g))"
    with h obtain t where "AxisAlignedBox_intersects (gridBox g) (getPoint (reverseRay g ray) t)"
      unfolding sound_test_def by blast
    moreover obtain s where "getPoint (reverseRay g ray) t = getPoint ray s"
      using reverseRay_on_line by blast
    ultimately show False using h by simp
  qed
  then show "getIntersectionEnd intersects g ray maxDistance =
        Vector3_add (mOrigin ray) (Vector3_mul (normalisedCopy (mDirection ray)) maxDistance)"
    by (simp add: getIntersectionEnd_reverseRay)
qed

theorem getIntersectionEnd_fallback_witness:
  "\<not> fst (Ray_intersects (reverseRay box_grid beside_ray) (gridBox box_grid)) \<and>
   getIntersectionEnd Ray_intersects box_grid beside_ray 10 = \<lparr>vx = 9, vy = 5, vz = 1\<rparr>"
proof -
  have miss: "\<not> fst (Ray_intersects (reverseRay box_grid beside_ray) (gridBox box_grid))"
    by (simp add: beside_ray_reverse)
      (simp add: Ray_intersects_def face_distances_def box_grid_box AxisAlignedBox_make_def
         AxisAlignedBox_intersects_def getPoint_def Vector3_add_def Vector3_mul_def)
  have line: "sound_test Ray_intersects \<and>
      (\<forall>t. \<not> AxisAlignedBox_intersects (gridBox box_grid) (getPoint beside_ray t))"
    using Ray_intersects_sound beside_ray_line_misses by blast
  note fallback = getIntersectionEnd_fallback[of Ray_intersects box_grid beside_ray 10]
  from fallback miss
  have "getIntersectionEnd Ray_intersects box_grid beside_ray 10 =
      Vector3_add (mOrigin beside_ray) (Vector3_mul (normalisedCopy (mDirection beside_ray)) 10)"
    by blast
  moreover from fallback line
  have "getIntersectionEnd Ray_intersects box_grid beside_ray 10 =
      Vector3_add (mOrigin beside_ray) (Vector3_mul (normalisedCopy (mDirection beside_ray)) 10)"
    by blast
  ultimately have "getIntersectionEnd Ray_intersects box_grid beside_ray 10 =
      \<lparr>vx = 9, vy = 5, vz = 1\<rparr>"
    by (simp add: beside_ray_direction) (simp add: beside_ray_def Vector3_add_def Vector3_mul_def)
  with miss show ?thesis by blast
qed

text \<open>
  A ray that misses the box does not always get the fallback. The ray below starts at
  \<open>(-1, 1, 1)\<close> and points away from the box of 2 by 3 by 6 cells: no point of it lies in
  the box, the test reports no hit and the entry point is the origin. The reverse ray,
  however, starts 7 units further along and comes back through the origin into the box: the
  exit point is \<open>(0, 1, 1)\<close>, on the face behind the origin, and not the origin plus
  direction times the maximal distance, \<open>(-11, 1, 1)\<close>.
\<close>

theorem getIntersectionEnd_counterexample:
  "\<not> fst (Ray_intersects away_ray (gridBox box_grid)) \<and>
   getIntersectionStart Ray_intersects box_grid away_ray 10 = mOrigin away_ray \<and>
   getIntersectionEnd Ray_intersects box_grid away_ray 10 = \<lparr>vx = 0, vy = 1, vz = 1\<rparr> \<and>
   Vector3_add (mOrigin away_ray) (Vector3_mul (normalisedCopy (mDirection away_ray)) 10) =
     \<lparr>vx = - 11, vy = 1, vz = 1\<rparr>"
  apply (simp add: away_ray_misses getIntersectionEnd_reverseRay away_ray_reverse_hits getIntersectionStart_def Let_def)
  apply (simp add: away_ray_reverse away_ray_direction)
  apply (simp add: away_ray_def Vector3_add_def Vector3_mul_def gridBox_intersects)
  done

end
